theory Spec2Isabelle
  imports Complex_Main
begin

section \<open>Server actions of the invoice dashboard (app/lib/actions.ts)\<close>

text \<open>
  The file \<^verbatim>\<open>app/lib/actions.ts\<close> holds seven server actions: \<^verbatim>\<open>authenticate\<close>, and
  create, update and delete for invoices and for customers. Each is embedded below as
  a function of the same name. What the actions call but do not define (the form data,
  the validation library, the storage client, the page cache, the navigation and the
  clock) is modelled beside them, as far as the actions use it:
  \<^item> a number of the language is a double: NaN, +Infinity, -Infinity, or a finite
    value, held as the rational it denotes. Every result of reading a literal and
    of a multiplication is rounded to the nearest double, ties to the even
    significand, with overflow to an infinity and underflow through the subnormal
    numbers to 0. The sign of zero is not modelled (the actions only compare the
    amount with 0 and multiply it).
  \<^item> a string is a list of code units below 256.
  \<^item> a storage call either throws or takes effect; which one is decided by the
    environment. A call that throws leaves the tables as they were.
  \<^item> every effect an action has on its collaborators is appended to a trace, so that
    the order of the effects and their absence can be stated.
  \<^item> \<^verbatim>\<open>revalidatePath\<close> returns without throwing, and \<^verbatim>\<open>redirect\<close> never returns
    to the action that calls it.
  \<^item> the validation library behaves as its version 3 does: a string schema accepts
    every string, a message given to a schema is the message of its type error, and
    the issues of all keys of an object are collected.
\<close>

subsection \<open>Numbers and the coercion of a string to a number\<close>

datatype jsnum = NaN | PosInfinity | NegInfinity | Finite rat

text \<open>
  Rounding a rational to the nearest double (binary64, round to nearest, ties to
  even). For a positive \<open>a\<close> below \<open>2 ^ 1024\<close>, \<open>log2_floor a\<close> is the exponent \<open>e\<close>
  with \<open>2 ^ e \<le> a < 2 ^ (e + 1)\<close>, found by bisection; below the normal range the
  exponent stays at -1022. The doubles of that exponent are the multiples of
  \<open>2 ^ (e - 52)\<close>, and \<open>a\<close> is rounded to the nearest of them.
\<close>

fun log2_search :: "rat \<Rightarrow> nat \<Rightarrow> nat list \<Rightarrow> nat" where
  "log2_search a e [] = e"
| "log2_search a e (p # ps) =
     (if 2 ^ (e + p) \<le> a then log2_search a (e + p) ps else log2_search a e ps)"

definition log2_floor :: "rat \<Rightarrow> int" where
  "log2_floor a =
     (if 1 \<le> a then int (log2_search a 0 [1024, 512, 256, 128, 64, 32, 16, 8, 4, 2, 1])
      else (let k = log2_search (1 / a) 0 [1024, 512, 256, 128, 64, 32, 16, 8, 4, 2, 1]
            in if 1 / a = 2 ^ k then - int k else - int k - 1))"

definition pow2 :: "int \<Rightarrow> rat" where
  "pow2 e = (if 0 \<le> e then 2 ^ nat e else 1 / 2 ^ nat (- e))"

definition roundTiesToEven :: "rat \<Rightarrow> int" where
  "roundTiesToEven x =
     (let f = \<lfloor>x\<rfloor>; r = x - of_int f
      in if r < 1 / 2 then f else if 1 / 2 < r then f + 1 else if even f then f else f + 1)"

definition round_positive :: "rat \<Rightarrow> jsnum" where
  "round_positive a =
     (if 2 ^ 1024 \<le> a then PosInfinity
      else if a < 1 / 2 ^ 1075 then Finite 0
      else (let e = max (log2_floor a) (- 1022);
                ulp = pow2 (e - 52);
                r = of_int (roundTiesToEven (a / ulp)) * ulp
            in if 2 ^ 1024 \<le> r then PosInfinity else Finite r))"

definition to_double :: "rat \<Rightarrow> jsnum" where
  "to_double q =
     (if q = 0 then Finite 0
      else if 0 < q then round_positive q
      else (case round_positive (- q) of Finite r \<Rightarrow> Finite (- r) | _ \<Rightarrow> NegInfinity))"

fun js_neg :: "jsnum \<Rightarrow> jsnum" where
  "js_neg NaN = NaN"
| "js_neg PosInfinity = NegInfinity"
| "js_neg NegInfinity = PosInfinity"
| "js_neg (Finite q) = Finite (- q)"

text \<open>The operator \<^verbatim>\<open>>\<close> on numbers: false whenever an operand is NaN.\<close>

fun js_gt :: "jsnum \<Rightarrow> jsnum \<Rightarrow> bool" where
  "js_gt NaN y = False"
| "js_gt x NaN = False"
| "js_gt PosInfinity y = (y \<noteq> PosInfinity)"
| "js_gt NegInfinity y = False"
| "js_gt (Finite a) PosInfinity = False"
| "js_gt (Finite a) NegInfinity = True"
| "js_gt (Finite a) (Finite b) = (b < a)"

text \<open>The operator \<^verbatim>\<open>*\<close> on numbers: the exact product of two finite numbers,
  rounded to a double.\<close>

definition infinity_of_sign :: "rat \<Rightarrow> jsnum" where
  "infinity_of_sign q = (if 0 < q then PosInfinity else if q < 0 then NegInfinity else NaN)"

fun js_times :: "jsnum \<Rightarrow> jsnum \<Rightarrow> jsnum" where
  "js_times NaN y = NaN"
| "js_times x NaN = NaN"
| "js_times (Finite a) (Finite b) = to_double (a * b)"
| "js_times (Finite a) PosInfinity = infinity_of_sign a"
| "js_times (Finite a) NegInfinity = infinity_of_sign (- a)"
| "js_times PosInfinity (Finite b) = infinity_of_sign b"
| "js_times NegInfinity (Finite b) = infinity_of_sign (- b)"
| "js_times PosInfinity PosInfinity = PosInfinity"
| "js_times PosInfinity NegInfinity = NegInfinity"
| "js_times NegInfinity PosInfinity = NegInfinity"
| "js_times NegInfinity NegInfinity = PosInfinity"

declare js_times.simps [simp del]

text \<open>\<^verbatim>\<open>Number.isInteger\<close>: a finite number with no fractional part.\<close>

fun js_isInteger :: "jsnum \<Rightarrow> bool" where
  "js_isInteger (Finite q) = (of_int \<lfloor>q\<rfloor> = q)"
| "js_isInteger x = False"

text \<open>
  The conversion of a string to a number, as \<^verbatim>\<open>Number(s)\<close> performs it: white space
  is trimmed, the empty string is 0, a literal with the prefix 0x, 0o or 0b is read
  in its base, a decimal literal may carry a sign, a fraction and an exponent, the
  word Infinity may carry a sign, and every other string is NaN. The mathematical
  value of a literal is rounded to a double. The white space below 256 is the
  space, TAB, LF, VT, FF, CR and the no-break space.
\<close>

definition is_ws :: "char \<Rightarrow> bool" where
  "is_ws c =
     (c \<in> set [CHR '' '', CHR 0x09, CHR 0x0A, CHR 0x0B, CHR 0x0C, CHR 0x0D, CHR 0xA0])"

definition trim :: "string \<Rightarrow> string" where
  "trim s = rev (dropWhile is_ws (rev (dropWhile is_ws s)))"

definition digit_table :: "(char \<times> nat) list" where
  "digit_table =
     [(CHR ''0'', 0), (CHR ''1'', 1), (CHR ''2'', 2), (CHR ''3'', 3), (CHR ''4'', 4),
      (CHR ''5'', 5), (CHR ''6'', 6), (CHR ''7'', 7), (CHR ''8'', 8), (CHR ''9'', 9),
      (CHR ''a'', 10), (CHR ''b'', 11), (CHR ''c'', 12), (CHR ''d'', 13), (CHR ''e'', 14),
      (CHR ''f'', 15),
      (CHR ''A'', 10), (CHR ''B'', 11), (CHR ''C'', 12), (CHR ''D'', 13), (CHR ''E'', 14),
      (CHR ''F'', 15)]"

definition digit_in :: "nat \<Rightarrow> char \<Rightarrow> nat option" where
  "digit_in b c =
     (case map_of digit_table c of
        None \<Rightarrow> None
      | Some d \<Rightarrow> if d < b then Some d else None)"

definition is_digit :: "nat \<Rightarrow> char \<Rightarrow> bool" where
  "is_digit b c = (digit_in b c \<noteq> None)"

fun digits_value :: "nat \<Rightarrow> nat \<Rightarrow> string \<Rightarrow> nat" where
  "digits_value b acc [] = acc"
| "digits_value b acc (c # cs) =
     digits_value b (acc * b + (case digit_in b c of Some d \<Rightarrow> d | None \<Rightarrow> 0)) cs"

definition all_digits :: "nat \<Rightarrow> string \<Rightarrow> bool" where
  "all_digits b ds = (ds \<noteq> [] \<and> list_all (is_digit b) ds)"

definition exponent_part :: "string \<Rightarrow> int option" where
  "exponent_part r =
     (case r of
        [] \<Rightarrow> Some 0
      | c # r' \<Rightarrow>
          if c = CHR ''e'' \<or> c = CHR ''E'' then
            (case r' of
               CHR ''+'' # ds \<Rightarrow>
                 if all_digits 10 ds then Some (int (digits_value 10 0 ds)) else None
             | CHR ''-'' # ds \<Rightarrow>
                 if all_digits 10 ds then Some (- int (digits_value 10 0 ds)) else None
             | ds \<Rightarrow>
                 if all_digits 10 ds then Some (int (digits_value 10 0 ds)) else None)
          else None)"

definition scale10 :: "rat \<Rightarrow> int \<Rightarrow> rat" where
  "scale10 q ex = (if 0 \<le> ex then q * 10 ^ nat ex else q / 10 ^ nat (- ex))"

definition decimal_literal :: "string \<Rightarrow> rat option" where
  "decimal_literal r =
     (let ip = takeWhile (is_digit 10) r;
          r1 = dropWhile (is_digit 10) r;
          fp = (case r1 of CHR ''.'' # r' \<Rightarrow> takeWhile (is_digit 10) r' | _ \<Rightarrow> []);
          r2 = (case r1 of CHR ''.'' # r' \<Rightarrow> dropWhile (is_digit 10) r' | _ \<Rightarrow> r1)
      in if ip = [] \<and> fp = [] then None
         else (case exponent_part r2 of
                 None \<Rightarrow> None
               | Some ex \<Rightarrow>
                   Some (scale10 (of_nat (digits_value 10 0 ip)
                                  + of_nat (digits_value 10 0 fp) / 10 ^ length fp) ex)))"

definition nondecimal_literal :: "string \<Rightarrow> nat option" where
  "nondecimal_literal t =
     (case t of
        CHR ''0'' # x # ds \<Rightarrow>
          if x = CHR ''x'' \<or> x = CHR ''X'' then
            (if all_digits 16 ds then Some (digits_value 16 0 ds) else None)
          else if x = CHR ''o'' \<or> x = CHR ''O'' then
            (if all_digits 8 ds then Some (digits_value 8 0 ds) else None)
          else if x = CHR ''b'' \<or> x = CHR ''B'' then
            (if all_digits 2 ds then Some (digits_value 2 0 ds) else None)
          else None
      | _ \<Rightarrow> None)"

definition unsigned_decimal :: "string \<Rightarrow> jsnum" where
  "unsigned_decimal r =
     (if r = ''Infinity'' then PosInfinity
      else (case decimal_literal r of Some q \<Rightarrow> to_double q | None \<Rightarrow> NaN))"

definition StringToNumber :: "string \<Rightarrow> jsnum" where
  "StringToNumber s =
     (let t = trim s in
      if t = [] then Finite 0
      else (case nondecimal_literal t of
              Some n \<Rightarrow> to_double (of_nat n)
            | None \<Rightarrow>
                (case t of
                   CHR ''+'' # r \<Rightarrow> unsigned_decimal r
                 | CHR ''-'' # r \<Rightarrow> js_neg (unsigned_decimal r)
                 | _ \<Rightarrow> unsigned_decimal t)))"

subsection \<open>Form data\<close>

text \<open>
  \<^verbatim>\<open>formData.get(name)\<close> is the first entry of that name, a string or a file, or
  null (here \<open>None\<close>) when the form has no such entry.
\<close>

datatype FormDataEntryValue = StringEntry string | FileEntry

type_synonym FormData = "(string \<times> FormDataEntryValue) list"

definition FormData_get :: "FormData \<Rightarrow> string \<Rightarrow> FormDataEntryValue option" where
  "FormData_get formData key = map_of formData key"

text \<open>\<^verbatim>\<open>Number(v)\<close> on what a form yields: null is 0, a file is NaN.\<close>

fun Number :: "FormDataEntryValue option \<Rightarrow> jsnum" where
  "Number None = Finite 0"
| "Number (Some (StringEntry s)) = StringToNumber s"
| "Number (Some FileEntry) = NaN"

subsection \<open>The validation schemas\<close>

text \<open>
  A schema of one field maps the raw value to the parsed value (\<open>Inr\<close>) or to the
  messages of its issues (\<open>Inl\<close>). The messages that the source does not give are the
  library's defaults.
\<close>

fun received_type :: "FormDataEntryValue option \<Rightarrow> string" where
  "received_type None = ''null''"
| "received_type (Some (StringEntry s)) = ''string''"
| "received_type (Some FileEntry) = ''object''"

definition default_invalid_type :: "string \<Rightarrow> FormDataEntryValue option \<Rightarrow> string" where
  "default_invalid_type expected v = ''Expected '' @ expected @ '', received '' @ received_type v"

text \<open>\<^verbatim>\<open>z.string({ invalid_type_error: m })\<close> and \<^verbatim>\<open>z.string({ message: m })\<close>;
  \<^verbatim>\<open>z.string()\<close> when no message is given.\<close>

definition z_string :: "string option \<Rightarrow> FormDataEntryValue option \<Rightarrow> string list + string" where
  "z_string invalid_type_error v =
     (case v of
        Some (StringEntry s) \<Rightarrow> Inr s
      | _ \<Rightarrow>
          Inl [case invalid_type_error of
                 Some m \<Rightarrow> m
               | None \<Rightarrow> default_invalid_type ''string'' v])"

text \<open>\<^verbatim>\<open>z.string().email({ message: m })\<close>; the format test of the library is a
  parameter.\<close>

definition z_string_email ::
  "(string \<Rightarrow> bool) \<Rightarrow> string \<Rightarrow> FormDataEntryValue option \<Rightarrow> string list + string" where
  "z_string_email emailRegex m v =
     (case z_string None v of
        Inl issues \<Rightarrow> Inl issues
      | Inr s \<Rightarrow> if emailRegex s then Inr s else Inl [m])"

text \<open>\<^verbatim>\<open>z.coerce.number().gt(bound, { message: m })\<close>.\<close>

definition z_coerce_number_gt ::
  "jsnum \<Rightarrow> string \<Rightarrow> FormDataEntryValue option \<Rightarrow> string list + jsnum" where
  "z_coerce_number_gt bound m v =
     (let n = Number v in
      if n = NaN then Inl [''Expected number, received nan'']
      else if js_gt n bound then Inr n
      else Inl [m])"

text \<open>\<^verbatim>\<open>z.enum(values, { invalid_type_error: m })\<close>.\<close>

fun joinValues :: "string list \<Rightarrow> string" where
  "joinValues [] = []"
| "joinValues [v] = [CHR 0x27] @ v @ [CHR 0x27]"
| "joinValues (v # vs) = [CHR 0x27] @ v @ [CHR 0x27] @ '' | '' @ joinValues vs"

definition invalid_enum_value :: "string list \<Rightarrow> string \<Rightarrow> string" where
  "invalid_enum_value values s =
     ''Invalid enum value. Expected '' @ joinValues values @ '', received ''
       @ [CHR 0x27] @ s @ [CHR 0x27]"

definition z_enum ::
  "string list \<Rightarrow> string \<Rightarrow> FormDataEntryValue option \<Rightarrow> string list + string" where
  "z_enum values invalid_type_error v =
     (case v of
        Some (StringEntry s) \<Rightarrow>
          if s \<in> set values then Inr s else Inl [invalid_enum_value values s]
      | _ \<Rightarrow> Inl [invalid_type_error])"

text \<open>The fields of \<^verbatim>\<open>FormSchema\<close> that \<^verbatim>\<open>CreateInvoice\<close> and \<^verbatim>\<open>UpdateInvoice\<close>
  keep (\<^verbatim>\<open>id\<close> and \<^verbatim>\<open>date\<close> are omitted).\<close>

definition FormSchema_customerId :: "FormDataEntryValue option \<Rightarrow> string list + string" where
  "FormSchema_customerId = z_string (Some ''Please Select a Customer.'')"

definition FormSchema_amount :: "FormDataEntryValue option \<Rightarrow> string list + jsnum" where
  "FormSchema_amount = z_coerce_number_gt (Finite 0) ''Please enter an amount greater than $0.''"

definition FormSchema_status :: "FormDataEntryValue option \<Rightarrow> string list + string" where
  "FormSchema_status = z_enum [''pending'', ''paid''] ''Please select an invoice status.''"

text \<open>The fields of \<^verbatim>\<open>CustomerFormSchema\<close> that \<^verbatim>\<open>CreateCustomer\<close> and
  \<^verbatim>\<open>UpdateCustomer\<close> keep.\<close>

definition CustomerFormSchema_name :: "FormDataEntryValue option \<Rightarrow> string list + string" where
  "CustomerFormSchema_name = z_string (Some ''Please enter a name.'')"

definition CustomerFormSchema_email ::
  "(string \<Rightarrow> bool) \<Rightarrow> FormDataEntryValue option \<Rightarrow> string list + string" where
  "CustomerFormSchema_email emailRegex =
     z_string_email emailRegex ''Please enter a valid email address.''"

definition CustomerFormSchema_imageUrl :: "FormDataEntryValue option \<Rightarrow> string list + string" where
  "CustomerFormSchema_imageUrl = z_string (Some ''Please upload valid image.'')"

text \<open>
  An issue is the key it was raised at and its message. An object schema parses
  every key and gathers the issues of all of them, in the order of the keys; it
  succeeds when no key failed.
\<close>

type_synonym ZodIssue = "string \<times> string"

definition issues_at :: "string \<Rightarrow> string list + 'a \<Rightarrow> ZodIssue list" where
  "issues_at key r = (case r of Inl ms \<Rightarrow> map (\<lambda>m. (key, m)) ms | Inr x \<Rightarrow> [])"

record InvoiceFields =
  customerId :: string
  amount :: jsnum
  status :: string

record CustomerFields =
  name :: string
  email :: string
  imageUrl :: string

definition CreateInvoice ::
  "FormDataEntryValue option \<Rightarrow> FormDataEntryValue option \<Rightarrow> FormDataEntryValue option
     \<Rightarrow> ZodIssue list + InvoiceFields" where
  "CreateInvoice c a s =
     (case (FormSchema_customerId c, FormSchema_amount a, FormSchema_status s) of
        (Inr c', Inr a', Inr s') \<Rightarrow> Inr \<lparr>customerId = c', amount = a', status = s'\<rparr>
      | (rc, ra, rs) \<Rightarrow>
          Inl (issues_at ''customerId'' rc @ issues_at ''amount'' ra @ issues_at ''status'' rs))"

definition UpdateInvoice ::
  "FormDataEntryValue option \<Rightarrow> FormDataEntryValue option \<Rightarrow> FormDataEntryValue option
     \<Rightarrow> ZodIssue list + InvoiceFields" where
  "UpdateInvoice = CreateInvoice"

definition CreateCustomer ::
  "(string \<Rightarrow> bool) \<Rightarrow> FormDataEntryValue option \<Rightarrow> FormDataEntryValue option
     \<Rightarrow> FormDataEntryValue option \<Rightarrow> ZodIssue list + CustomerFields" where
  "CreateCustomer emailRegex n m i =
     (case (CustomerFormSchema_name n, CustomerFormSchema_email emailRegex m,
            CustomerFormSchema_imageUrl i) of
        (Inr n', Inr m', Inr i') \<Rightarrow> Inr \<lparr>name = n', email = m', imageUrl = i'\<rparr>
      | (rn, rm, ri) \<Rightarrow>
          Inl (issues_at ''name'' rn @ issues_at ''email'' rm @ issues_at ''imageUrl'' ri))"

definition UpdateCustomer ::
  "(string \<Rightarrow> bool) \<Rightarrow> FormDataEntryValue option \<Rightarrow> FormDataEntryValue option
     \<Rightarrow> FormDataEntryValue option \<Rightarrow> ZodIssue list + CustomerFields" where
  "UpdateCustomer = CreateCustomer"

text \<open>
  \<^verbatim>\<open>error.flatten().fieldErrors\<close>: an object that has, for every key with an issue,
  the messages of that key's issues in their order.
\<close>

type_synonym FieldErrors = "(string \<times> string list) list"

definition push_fieldError :: "FieldErrors \<Rightarrow> ZodIssue \<Rightarrow> FieldErrors" where
  "push_fieldError fe issue =
     (case map_of fe (fst issue) of
        None \<Rightarrow> fe @ [(fst issue, [snd issue])]
      | Some ms \<Rightarrow>
          map (\<lambda>(k, ms'). if k = fst issue then (k, ms' @ [snd issue]) else (k, ms')) fe)"

definition fieldErrors :: "ZodIssue list \<Rightarrow> FieldErrors" where
  "fieldErrors issues = foldl push_fieldError [] issues"

subsection \<open>What an action returns\<close>

text \<open>
  \<^verbatim>\<open>State\<close> and \<^verbatim>\<open>CustomerState\<close> are the same shape: an optional message and an
  optional object of field errors. An invocation ends by returning a state, or inside
  \<^verbatim>\<open>redirect\<close>, which never returns to the action.
\<close>

record State =
  message :: "string option"
  error :: "FieldErrors option"

type_synonym CustomerState = State

datatype outcome = Returned State | Redirected string

subsection \<open>The storage\<close>

record invoice_row =
  inv_id :: string
  inv_customer_id :: string
  inv_amount :: jsnum
  inv_status :: string
  inv_date :: string

record customer_row =
  cust_id :: string
  cust_name :: string
  cust_email :: string
  cust_image_url :: string

record database =
  invoices :: "invoice_row list"
  customers :: "customer_row list"

text \<open>The six statements of the source, each with its parameters in the order of the
  source text.\<close>

datatype sql_stmt =
    INSERT_INTO_invoices string jsnum string string
  | UPDATE_invoices string jsnum string string
  | DELETE_FROM_invoices string
  | INSERT_INTO_customers string string string
  | UPDATE_customers string string string string
  | DELETE_FROM_customers string

text \<open>
  The effect of a statement that the storage accepts. The identifier of an inserted
  row is not given by the statement; the table supplies it (\<open>new_id\<close>).
\<close>

fun run_stmt :: "(database \<Rightarrow> string) \<Rightarrow> sql_stmt \<Rightarrow> database \<Rightarrow> database" where
  "run_stmt new_id (INSERT_INTO_invoices c a s d) t =
     t\<lparr>invoices := invoices t @
        [\<lparr>inv_id = new_id t, inv_customer_id = c, inv_amount = a, inv_status = s,
          inv_date = d\<rparr>]\<rparr>"
| "run_stmt new_id (UPDATE_invoices c a s i) t =
     t\<lparr>invoices :=
        map (\<lambda>r. if inv_id r = i
                 then r\<lparr>inv_customer_id := c, inv_amount := a, inv_status := s\<rparr>
                 else r)
          (invoices t)\<rparr>"
| "run_stmt new_id (DELETE_FROM_invoices i) t =
     t\<lparr>invoices := filter (\<lambda>r. inv_id r \<noteq> i) (invoices t)\<rparr>"
| "run_stmt new_id (INSERT_INTO_customers n m u) t =
     t\<lparr>customers := customers t @
        [\<lparr>cust_id = new_id t, cust_name = n, cust_email = m, cust_image_url = u\<rparr>]\<rparr>"
| "run_stmt new_id (UPDATE_customers n m u i) t =
     t\<lparr>customers :=
        map (\<lambda>r. if cust_id r = i
                 then r\<lparr>cust_name := n, cust_email := m, cust_image_url := u\<rparr>
                 else r)
          (customers t)\<rparr>"
| "run_stmt new_id (DELETE_FROM_customers i) t =
     t\<lparr>customers := filter (\<lambda>r. cust_id r \<noteq> i) (customers t)\<rparr>"

subsection \<open>The clock and the date stamp\<close>

text \<open>
  What \<^verbatim>\<open>new Date()\<close> reads, as its UTC fields (the month counted from 1).
  \<^verbatim>\<open>toISOString\<close> prints the year with four digits from 0 to 9999 and with a sign
  and six digits otherwise.
\<close>

record Date =
  utc_year :: int
  utc_month :: nat
  utc_day :: nat
  utc_hours :: nat
  utc_minutes :: nat
  utc_seconds :: nat
  utc_milliseconds :: nat

definition digit_char :: "nat \<Rightarrow> char" where
  "digit_char d = ''0123456789'' ! d"

fun decimal :: "nat \<Rightarrow> string" where
  "decimal n = (if n < 10 then [digit_char n] else decimal (n div 10) @ [digit_char (n mod 10)])"

declare decimal.simps [simp del]

definition padStart :: "nat \<Rightarrow> char \<Rightarrow> string \<Rightarrow> string" where
  "padStart n c s = replicate (n - length s) c @ s"

definition toISOString :: "Date \<Rightarrow> string" where
  "toISOString t =
     (if 0 \<le> utc_year t \<and> utc_year t \<le> 9999
      then padStart 4 CHR ''0'' (decimal (nat (utc_year t)))
      else (if utc_year t < 0 then ''-'' else ''+'')
           @ padStart 6 CHR ''0'' (decimal (nat \<bar>utc_year t\<bar>)))
     @ ''-'' @ padStart 2 CHR ''0'' (decimal (utc_month t))
     @ ''-'' @ padStart 2 CHR ''0'' (decimal (utc_day t))
     @ ''T'' @ padStart 2 CHR ''0'' (decimal (utc_hours t))
     @ '':'' @ padStart 2 CHR ''0'' (decimal (utc_minutes t))
     @ '':'' @ padStart 2 CHR ''0'' (decimal (utc_seconds t))
     @ ''.'' @ padStart 3 CHR ''0'' (decimal (utc_milliseconds t))
     @ ''Z''"

text \<open>\<^verbatim>\<open>s.split(sep)\<close> for a separator of one character: the first piece and the
  pieces after it (the result is never empty).\<close>

fun split :: "char \<Rightarrow> string \<Rightarrow> string \<times> string list" where
  "split sep [] = ([], [])"
| "split sep (c # cs) =
     (let (p, ps) = split sep cs in if c = sep then ([], p # ps) else (c # p, ps))"

subsection \<open>The environment and the trace of effects\<close>

record env =
  clock :: Date
  storage_fails :: "sql_stmt \<Rightarrow> database \<Rightarrow> bool"
  new_id :: "database \<Rightarrow> string"
  emailRegex :: "string \<Rightarrow> bool"

datatype effect = SqlStatement sql_stmt | RevalidatePath string | Redirect string

record world =
  db :: database
  trace :: "effect list"

definition request :: "database \<Rightarrow> world" where
  "request t = \<lparr>db = t, trace = []\<rparr>"

text \<open>\<^verbatim>\<open>await sql`...`\<close>: \<open>False\<close> when the call throws.\<close>

definition sql :: "env \<Rightarrow> sql_stmt \<Rightarrow> world \<Rightarrow> bool \<times> world" where
  "sql e q w =
     (if storage_fails e q (db w)
      then (False, w\<lparr>trace := trace w @ [SqlStatement q]\<rparr>)
      else (True, \<lparr>db = run_stmt (new_id e) q (db w), trace = trace w @ [SqlStatement q]\<rparr>))"

definition revalidatePath :: "string \<Rightarrow> world \<Rightarrow> world" where
  "revalidatePath p w = w\<lparr>trace := trace w @ [RevalidatePath p]\<rparr>"

definition redirect :: "string \<Rightarrow> world \<Rightarrow> outcome \<times> world" where
  "redirect p w = (Redirected p, w\<lparr>trace := trace w @ [Redirect p]\<rparr>)"

subsection \<open>The invoice actions\<close>

definition createInvoice :: "env \<Rightarrow> State \<Rightarrow> FormData \<Rightarrow> world \<Rightarrow> outcome \<times> world" where
  "createInvoice e prevState formData w =
     (case CreateInvoice (FormData_get formData ''customerId'') (FormData_get formData ''amount'')
             (FormData_get formData ''status'') of
        Inl issues \<Rightarrow>
          (Returned \<lparr>message = Some ''Missing Fields. Failed to Create Invoice.'',
                     error = Some (fieldErrors issues)\<rparr>, w)
      | Inr data \<Rightarrow>
          (let amountInCents = js_times (amount data) (Finite 100);
               date = fst (split CHR ''T'' (toISOString (clock e)));
               (ok, w1) =
                 sql e (INSERT_INTO_invoices (customerId data) amountInCents (status data) date) w
           in if \<not> ok
              then (Returned \<lparr>message = Some ''Database Error : Failed To Create Invoice.'',
                               error = None\<rparr>, w1)
              else redirect ''/dashboard/invoices'' (revalidatePath ''/dashboard/invoices'' w1)))"

definition updateInvoice ::
  "env \<Rightarrow> string \<Rightarrow> State \<Rightarrow> FormData \<Rightarrow> world \<Rightarrow> outcome \<times> world" where
  "updateInvoice e i prevState formData w =
     (case UpdateInvoice (FormData_get formData ''customerId'') (FormData_get formData ''amount'')
             (FormData_get formData ''status'') of
        Inl issues \<Rightarrow>
          (Returned \<lparr>message = Some ''Missing Fields. Failed to Update Invoice.'',
                     error = Some (fieldErrors issues)\<rparr>, w)
      | Inr data \<Rightarrow>
          (let amountInCents = js_times (amount data) (Finite 100);
               (ok, w1) =
                 sql e (UPDATE_invoices (customerId data) amountInCents (status data) i) w
           in if \<not> ok
              then (Returned \<lparr>message = Some ''Database Error: Failed to Update Invoice.'',
                               error = None\<rparr>, w1)
              else redirect ''/dashboard/invoices'' (revalidatePath ''/dashboard/invoices'' w1)))"

definition deleteInvoice :: "env \<Rightarrow> string \<Rightarrow> world \<Rightarrow> outcome \<times> world" where
  "deleteInvoice e i w =
     (let (ok, w1) = sql e (DELETE_FROM_invoices i) w
      in if ok
         then (Returned \<lparr>message = Some ''Deleted Invoice.'', error = None\<rparr>,
               revalidatePath ''/dashboard/invoices'' w1)
         else (Returned \<lparr>message = Some ''Database Error: Failed to Delete Invoice.'',
                          error = None\<rparr>, w1))"

subsection \<open>The customer actions\<close>

definition createCustomer ::
  "env \<Rightarrow> CustomerState \<Rightarrow> FormData \<Rightarrow> world \<Rightarrow> outcome \<times> world" where
  "createCustomer e prevState formData w =
     (case CreateCustomer (emailRegex e) (FormData_get formData ''name'')
             (FormData_get formData ''email'') (FormData_get formData ''imageUrl'') of
        Inl issues \<Rightarrow>
          (Returned \<lparr>message = Some ''Missing Fields. Failed to Create Customer.'',
                     error = Some (fieldErrors issues)\<rparr>, w)
      | Inr data \<Rightarrow>
          (let (ok, w1) =
                 sql e (INSERT_INTO_customers (name data) (email data) (imageUrl data)) w
           in if \<not> ok
              then (Returned \<lparr>message = Some ''Database Error : Failed To Create Customer.'',
                               error = None\<rparr>, w1)
              else redirect ''/dashboard/customers''
                     (revalidatePath ''/dashboard/customers'' w1)))"

definition updateCustomer ::
  "env \<Rightarrow> string \<Rightarrow> CustomerState \<Rightarrow> FormData \<Rightarrow> world \<Rightarrow> outcome \<times> world" where
  "updateCustomer e i prevState formData w =
     (case UpdateCustomer (emailRegex e) (FormData_get formData ''name'')
             (FormData_get formData ''email'') (FormData_get formData ''imageUrl'') of
        Inl issues \<Rightarrow>
          (Returned \<lparr>message = Some ''Missing Fields. Failed to Update Customer.'',
                     error = Some (fieldErrors issues)\<rparr>, w)
      | Inr data \<Rightarrow>
          (let (ok, w1) =
                 sql e (UPDATE_customers (name data) (email data) (imageUrl data) i) w
           in if \<not> ok
              then (Returned \<lparr>message = Some ''Database Error: Failed to Update Customer.'',
                               error = None\<rparr>, w1)
              else redirect ''/dashboard/customers''
                     (revalidatePath ''/dashboard/customers'' w1)))"

definition deleteCustomer :: "env \<Rightarrow> string \<Rightarrow> world \<Rightarrow> outcome \<times> world" where
  "deleteCustomer e i w =
     (let (ok, w1) = sql e (DELETE_FROM_customers i) w
      in if ok
         then (Returned \<lparr>message = Some ''Deleted Customer.'', error = None\<rparr>,
               revalidatePath ''/dashboard/customers'' w1)
         else (Returned \<lparr>message = Some ''Database Error: Failed to Delete Customer.'',
                          error = None\<rparr>, w1))"

subsection \<open>Authentication\<close>

text \<open>
  What \<^verbatim>\<open>signIn\<close> can throw: an \<^verbatim>\<open>AuthError\<close> with its \<^verbatim>\<open>type\<close>, or any other value
  (here named by a description). \<^verbatim>\<open>authenticate\<close> returns a message, returns
  nothing (\<open>None\<close>) or throws.
\<close>

datatype thrown = AuthError string | NotAuthError string

datatype signIn_result = Resolved | Rejected thrown

datatype authenticate_result = ReturnedMessage "string option" | Thrown thrown

definition authenticate ::
  "(string \<Rightarrow> FormData \<Rightarrow> signIn_result) \<Rightarrow> string option \<Rightarrow> FormData \<Rightarrow> authenticate_result" where
  "authenticate signIn prevState formData =
     (case signIn ''credentials'' formData of
        Resolved \<Rightarrow> ReturnedMessage None
      | Rejected err \<Rightarrow>
          (case err of
             AuthError ty \<Rightarrow>
               if ty = ''CredentialsSignin'' then ReturnedMessage (Some ''Invalid credentials.'')
               else ReturnedMessage (Some ''Something went wrong.'')
           | NotAuthError x \<Rightarrow> Thrown err))"

subsection \<open>Notions used to state the properties\<close>

text \<open>The messages with which one field fails its schema, if it fails.\<close>

definition failure :: "string list + 'a \<Rightarrow> string list option" where
  "failure r = (case r of Inl ms \<Rightarrow> Some ms | Inr x \<Rightarrow> None)"

text \<open>For a form and a field name: the messages of that field's own schema on that
  form; \<open>None\<close> for a field that passes and for a name that is no field.\<close>

definition invoice_field_messages :: "FormData \<Rightarrow> string \<Rightarrow> string list option" where
  "invoice_field_messages formData key =
     (if key = ''customerId''
      then failure (FormSchema_customerId (FormData_get formData ''customerId''))
      else if key = ''amount''
      then failure (FormSchema_amount (FormData_get formData ''amount''))
      else if key = ''status''
      then failure (FormSchema_status (FormData_get formData ''status''))
      else None)"

definition customer_field_messages ::
  "(string \<Rightarrow> bool) \<Rightarrow> FormData \<Rightarrow> string \<Rightarrow> string list option" where
  "customer_field_messages rx formData key =
     (if key = ''name''
      then failure (CustomerFormSchema_name (FormData_get formData ''name''))
      else if key = ''email''
      then failure (CustomerFormSchema_email rx (FormData_get formData ''email''))
      else if key = ''imageUrl''
      then failure (CustomerFormSchema_imageUrl (FormData_get formData ''imageUrl''))
      else None)"

definition messages_at :: "string \<Rightarrow> ZodIssue list \<Rightarrow> string list" where
  "messages_at k iss = map snd (filter (\<lambda>i. fst i = k) iss)"

text \<open>The statements sent to the storage in a trace.\<close>

fun sql_statements :: "effect list \<Rightarrow> sql_stmt list" where
  "sql_statements [] = []"
| "sql_statements (SqlStatement q # es) = q # sql_statements es"
| "sql_statements (e # es) = sql_statements es"



text \<open>The format YYYY-MM-DD: four digits of the year, two of the month and two of the
  day, joined by hyphens.\<close>

definition YYYY_MM_DD :: "nat \<Rightarrow> nat \<Rightarrow> nat \<Rightarrow> string" where
  "YYYY_MM_DD y m d =
     [digit_char (y div 1000 mod 10), digit_char (y div 100 mod 10),
      digit_char (y div 10 mod 10), digit_char (y mod 10), CHR ''-'',
      digit_char (m div 10 mod 10), digit_char (m mod 10), CHR ''-'',
      digit_char (d div 10 mod 10), digit_char (d mod 10)]"

text \<open>A reading of the clock whose month and day are those of a calendar and whose
  year has at most four digits.\<close>

definition four_digit_year :: "Date \<Rightarrow> bool" where
  "four_digit_year t =
     (0 \<le> utc_year t \<and> utc_year t \<le> 9999 \<and> 1 \<le> utc_month t \<and> utc_month t \<le> 12
      \<and> 1 \<le> utc_day t \<and> utc_day t \<le> 31)"

subsection \<open>Example data\<close>

definition example_clock :: Date where
  "example_clock =
     \<lparr>utc_year = 2024, utc_month = 3, utc_day = 7, utc_hours = 9, utc_minutes = 5,
      utc_seconds = 0, utc_milliseconds = 42\<rparr>"

definition example_env :: env where
  "example_env =
     \<lparr>clock = example_clock, storage_fails = (\<lambda>q t. False), new_id = (\<lambda>t. ''new-id''),
      emailRegex = (\<lambda>s. CHR ''@'' \<in> set s)\<rparr>"

definition failing_env :: env where
  "failing_env = example_env\<lparr>storage_fails := (\<lambda>q t. True)\<rparr>"

definition example_db :: database where
  "example_db =
     \<lparr>invoices =
        [\<lparr>inv_id = ''inv-1'', inv_customer_id = ''c1'', inv_amount = Finite 2000,
          inv_status = ''pending'', inv_date = ''2023-12-31''\<rparr>,
         \<lparr>inv_id = ''inv-2'', inv_customer_id = ''c2'', inv_amount = Finite 999,
          inv_status = ''paid'', inv_date = ''2024-01-15''\<rparr>],
      customers =
        [\<lparr>cust_id = ''c1'', cust_name = ''Ada'', cust_email = ''ada@example.com'',
          cust_image_url = ''/img/ada.png''\<rparr>,
         \<lparr>cust_id = ''c2'', cust_name = ''Bob'', cust_email = ''bob@example.com'',
          cust_image_url = ''/img/bob.png''\<rparr>]\<rparr>"

definition initialState :: State where
  "initialState = \<lparr>message = None, error = Some []\<rparr>"

definition invoice_form :: "string \<Rightarrow> string \<Rightarrow> string \<Rightarrow> FormData" where
  "invoice_form c a s =
     [(''customerId'', StringEntry c), (''amount'', StringEntry a), (''status'', StringEntry s)]"

definition customer_form :: "string \<Rightarrow> string \<Rightarrow> string \<Rightarrow> FormData" where
  "customer_form n m u =
     [(''name'', StringEntry n), (''email'', StringEntry m), (''imageUrl'', StringEntry u)]"

section \<open>Auxiliary facts\<close>

subsection \<open>The field errors of a list of issues\<close>

lemma map_of_map_push:
  "map_of (map (\<lambda>(x, ms'). if x = k' then (x, ms' @ [m]) else (x, ms')) fe) k =
     (if k = k' then map_option (\<lambda>ms'. ms' @ [m]) (map_of fe k) else map_of fe k)"
  by (induction fe) auto

lemma map_of_push_fieldError:
  "map_of (push_fieldError fe (k', m)) k =
     (if k = k' then Some ((case map_of fe k of None \<Rightarrow> [] | Some old \<Rightarrow> old) @ [m])
      else map_of fe k)"
proof (cases "map_of fe k'")
  case None
  then show ?thesis
    by (auto simp: push_fieldError_def map_add_def split: option.splits)
next
  case (Some ms)
  then show ?thesis
    by (simp add: push_fieldError_def map_of_map_push)
qed

lemma messages_at_Cons:
  "messages_at k ((k', m) # iss) = (if k' = k then m # messages_at k iss else messages_at k iss)"
  by (simp add: messages_at_def)

lemma map_of_foldl_push:
  "map_of (foldl push_fieldError fe iss) k =
     (if messages_at k iss = [] then map_of fe k
      else Some ((case map_of fe k of None \<Rightarrow> [] | Some old \<Rightarrow> old) @ messages_at k iss))"
proof (induction iss arbitrary: fe)
  case Nil
  then show ?case by (simp add: messages_at_def)
next
  case (Cons i iss)
  obtain k' m where i: "i = (k', m)" by (cases i)
  have "map_of (foldl push_fieldError fe (i # iss)) k =
          map_of (foldl push_fieldError (push_fieldError fe (k', m)) iss) k"
    by (simp add: i)
  also have "\<dots> = (if messages_at k iss = [] then map_of (push_fieldError fe (k', m)) k
      else Some ((case map_of (push_fieldError fe (k', m)) k of None \<Rightarrow> [] | Some old \<Rightarrow> old)
                  @ messages_at k iss))"
    by (rule Cons.IH)
  also have "\<dots> = (if messages_at k (i # iss) = [] then map_of fe k
      else Some ((case map_of fe k of None \<Rightarrow> [] | Some old \<Rightarrow> old) @ messages_at k (i # iss)))"
    unfolding i messages_at_Cons map_of_push_fieldError by (cases "k' = k") simp_all
  finally show ?case .
qed

lemma map_of_fieldErrors:
  "map_of (fieldErrors iss) k = (if messages_at k iss = [] then None else Some (messages_at k iss))"
  by (simp add: fieldErrors_def map_of_foldl_push)

lemma messages_at_append: "messages_at k (xs @ ys) = messages_at k xs @ messages_at k ys"
  by (simp add: messages_at_def)

lemma messages_at_issues_at:
  "messages_at k (issues_at k' r) = (if k = k' then (case r of Inl ms \<Rightarrow> ms | Inr x \<Rightarrow> []) else [])"
  by (auto simp: messages_at_def issues_at_def comp_def split: sum.splits)

lemma messages_at_other: "k \<noteq> k' \<Longrightarrow> messages_at k (issues_at k' r) = []"
  by (simp add: messages_at_issues_at)

lemma lookup_issues_at:
  assumes "\<And>ms. r = Inl ms \<Longrightarrow> ms \<noteq> []"
  shows "(if messages_at k (issues_at k r) = [] then None
          else Some (messages_at k (issues_at k r))) = failure r"
  using assms by (cases r) (simp_all add: messages_at_issues_at failure_def)

subsection \<open>The schemas\<close>

text \<open>A field that fails has at least one message.\<close>

lemma z_string_nonempty: "z_string m v = Inl ms \<Longrightarrow> ms \<noteq> []"
  by (auto simp: z_string_def split: option.splits FormDataEntryValue.splits)

lemma FormSchema_customerId_nonempty: "FormSchema_customerId v = Inl ms \<Longrightarrow> ms \<noteq> []"
  by (auto simp: FormSchema_customerId_def dest: z_string_nonempty)

lemma FormSchema_amount_nonempty: "FormSchema_amount v = Inl ms \<Longrightarrow> ms \<noteq> []"
  by (auto simp: FormSchema_amount_def z_coerce_number_gt_def Let_def split: if_splits)

lemma FormSchema_status_nonempty: "FormSchema_status v = Inl ms \<Longrightarrow> ms \<noteq> []"
  by (auto simp: FormSchema_status_def z_enum_def split: option.splits FormDataEntryValue.splits if_splits)

lemma CustomerFormSchema_name_nonempty: "CustomerFormSchema_name v = Inl ms \<Longrightarrow> ms \<noteq> []"
  by (auto simp: CustomerFormSchema_name_def dest: z_string_nonempty)

lemma CustomerFormSchema_imageUrl_nonempty: "CustomerFormSchema_imageUrl v = Inl ms \<Longrightarrow> ms \<noteq> []"
  by (auto simp: CustomerFormSchema_imageUrl_def dest: z_string_nonempty)

lemma CustomerFormSchema_email_nonempty: "CustomerFormSchema_email rx v = Inl ms \<Longrightarrow> ms \<noteq> []"
  by (auto simp: CustomerFormSchema_email_def z_string_email_def dest: z_string_nonempty
      split: sum.splits if_splits)

text \<open>An object schema succeeds exactly when each of its fields does, and fails with
  the issues of all fields.\<close>

lemma CreateInvoice_Inr_iff:
  "CreateInvoice c a s = Inr d \<longleftrightarrow>
     (\<exists>c' a' s'. FormSchema_customerId c = Inr c' \<and> FormSchema_amount a = Inr a'
        \<and> FormSchema_status s = Inr s' \<and> d = \<lparr>customerId = c', amount = a', status = s'\<rparr>)"
  by (auto simp: CreateInvoice_def split: sum.splits)

lemma CreateInvoice_valid:
  assumes "FormSchema_customerId c = Inr c'" "FormSchema_amount a = Inr a'"
    "FormSchema_status s = Inr s'"
  shows "CreateInvoice c a s = Inr \<lparr>customerId = c', amount = a', status = s'\<rparr>"
  using assms by (simp add: CreateInvoice_def)

lemma CreateInvoice_Inl:
  "CreateInvoice c a s = Inl iss \<Longrightarrow>
     iss = issues_at ''customerId'' (FormSchema_customerId c) @ issues_at ''amount'' (FormSchema_amount a)
           @ issues_at ''status'' (FormSchema_status s)"
  by (auto simp: CreateInvoice_def split: sum.splits)

lemma CreateInvoice_fails_iff:
  "(\<exists>iss. CreateInvoice c a s = Inl iss) \<longleftrightarrow>
     (failure (FormSchema_customerId c) \<noteq> None \<or> failure (FormSchema_amount a) \<noteq> None
        \<or> failure (FormSchema_status s) \<noteq> None)"
  by (auto simp: CreateInvoice_def failure_def split: sum.splits)

lemma CreateCustomer_Inr_iff:
  "CreateCustomer rx n m i = Inr d \<longleftrightarrow>
     (\<exists>n' m' i'. CustomerFormSchema_name n = Inr n' \<and> CustomerFormSchema_email rx m = Inr m'
        \<and> CustomerFormSchema_imageUrl i = Inr i' \<and> d = \<lparr>name = n', email = m', imageUrl = i'\<rparr>)"
  by (auto simp: CreateCustomer_def split: sum.splits)

lemma CreateCustomer_valid:
  assumes "CustomerFormSchema_name n = Inr n'" "CustomerFormSchema_email rx m = Inr m'"
    "CustomerFormSchema_imageUrl u = Inr u'"
  shows "CreateCustomer rx n m u = Inr \<lparr>name = n', email = m', imageUrl = u'\<rparr>"
  using assms by (simp add: CreateCustomer_def)

lemma CreateCustomer_Inl:
  "CreateCustomer rx n m i = Inl iss \<Longrightarrow>
     iss = issues_at ''name'' (CustomerFormSchema_name n) @ issues_at ''email'' (CustomerFormSchema_email rx m)
           @ issues_at ''imageUrl'' (CustomerFormSchema_imageUrl i)"
  by (auto simp: CreateCustomer_def split: sum.splits)

lemma CreateCustomer_fails_iff:
  "(\<exists>iss. CreateCustomer rx n m i = Inl iss) \<longleftrightarrow>
     (failure (CustomerFormSchema_name n) \<noteq> None \<or> failure (CustomerFormSchema_email rx m) \<noteq> None
        \<or> failure (CustomerFormSchema_imageUrl i) \<noteq> None)"
  by (auto simp: CreateCustomer_def failure_def split: sum.splits)

lemma invoice_invalid:
  assumes "invoice_field_messages fd f \<noteq> None"
  shows "\<exists>iss. CreateInvoice (FormData_get fd ''customerId'') (FormData_get fd ''amount'')
             (FormData_get fd ''status'') = Inl iss"
  using assms unfolding CreateInvoice_fails_iff invoice_field_messages_def
  by (simp split: if_splits)

lemma customer_invalid:
  assumes "customer_field_messages rx fd f \<noteq> None"
  shows "\<exists>iss. CreateCustomer rx (FormData_get fd ''name'') (FormData_get fd ''email'')
             (FormData_get fd ''imageUrl'') = Inl iss"
  using assms unfolding CreateCustomer_fails_iff customer_field_messages_def
  by (simp split: if_splits)

lemma invoice_fieldErrors:
  assumes "CreateInvoice (FormData_get fd ''customerId'') (FormData_get fd ''amount'')
             (FormData_get fd ''status'') = Inl iss"
  shows "map_of (fieldErrors iss) = invoice_field_messages fd"
proof
  fix k
  note iss = CreateInvoice_Inl [OF assms]
  consider "k = ''customerId''" | "k = ''amount''" | "k = ''status''"
    | "k \<noteq> ''customerId''" "k \<noteq> ''amount''" "k \<noteq> ''status''"
    by blast
  then show "map_of (fieldErrors iss) k = invoice_field_messages fd k"
  proof cases
    case 1
    then show ?thesis
      by (simp add: map_of_fieldErrors iss messages_at_append messages_at_other
          invoice_field_messages_def lookup_issues_at [where k = "''customerId''", OF FormSchema_customerId_nonempty, symmetric])
  next
    case 2
    then show ?thesis
      by (simp add: map_of_fieldErrors iss messages_at_append messages_at_other
          invoice_field_messages_def lookup_issues_at [where k = "''amount''", OF FormSchema_amount_nonempty, symmetric])
  next
    case 3
    then show ?thesis
      by (simp add: map_of_fieldErrors iss messages_at_append messages_at_other
          invoice_field_messages_def lookup_issues_at [where k = "''status''", OF FormSchema_status_nonempty, symmetric])
  next
    case 4
    then show ?thesis
      by (simp add: map_of_fieldErrors iss messages_at_append messages_at_other
          invoice_field_messages_def)
  qed
qed

lemma customer_fieldErrors:
  assumes "CreateCustomer rx (FormData_get fd ''name'') (FormData_get fd ''email'')
             (FormData_get fd ''imageUrl'') = Inl iss"
  shows "map_of (fieldErrors iss) = customer_field_messages rx fd"
proof
  fix k
  note iss = CreateCustomer_Inl [OF assms]
  consider "k = ''name''" | "k = ''email''" | "k = ''imageUrl''"
    | "k \<noteq> ''name''" "k \<noteq> ''email''" "k \<noteq> ''imageUrl''"
    by blast
  then show "map_of (fieldErrors iss) k = customer_field_messages rx fd k"
  proof cases
    case 1
    then show ?thesis
      by (simp add: map_of_fieldErrors iss messages_at_append messages_at_other
          customer_field_messages_def lookup_issues_at [where k = "''name''", OF CustomerFormSchema_name_nonempty, symmetric])
  next
    case 2
    then show ?thesis
      by (simp add: map_of_fieldErrors iss messages_at_append messages_at_other
          customer_field_messages_def lookup_issues_at [where k = "''email''", OF CustomerFormSchema_email_nonempty, symmetric])
  next
    case 3
    then show ?thesis
      by (simp add: map_of_fieldErrors iss messages_at_append messages_at_other
          customer_field_messages_def lookup_issues_at [where k = "''imageUrl''", OF CustomerFormSchema_imageUrl_nonempty, symmetric])
  next
    case 4
    then show ?thesis
      by (simp add: map_of_fieldErrors iss messages_at_append messages_at_other
          customer_field_messages_def)
  qed
qed

text \<open>Every form is either rejected by a schema or yields its three values.\<close>

lemma invoice_form_cases:
  obtains (invalid) iss where
      "CreateInvoice (FormData_get fd ''customerId'') (FormData_get fd ''amount'')
         (FormData_get fd ''status'') = Inl iss"
  | (valid) c a s where
      "FormSchema_customerId (FormData_get fd ''customerId'') = Inr c"
      "FormSchema_amount (FormData_get fd ''amount'') = Inr a"
      "FormSchema_status (FormData_get fd ''status'') = Inr s"
proof (cases "CreateInvoice (FormData_get fd ''customerId'') (FormData_get fd ''amount'')
         (FormData_get fd ''status'')")
  case (Inl iss)
  then show ?thesis by (rule invalid)
next
  case (Inr d)
  then show ?thesis
    unfolding CreateInvoice_Inr_iff using valid by blast
qed

lemma customer_form_cases:
  obtains (invalid) iss where
      "CreateCustomer rx (FormData_get fd ''name'') (FormData_get fd ''email'')
         (FormData_get fd ''imageUrl'') = Inl iss"
  | (valid) n m u where
      "CustomerFormSchema_name (FormData_get fd ''name'') = Inr n"
      "CustomerFormSchema_email rx (FormData_get fd ''email'') = Inr m"
      "CustomerFormSchema_imageUrl (FormData_get fd ''imageUrl'') = Inr u"
proof (cases "CreateCustomer rx (FormData_get fd ''name'') (FormData_get fd ''email'')
         (FormData_get fd ''imageUrl'')")
  case (Inl iss)
  then show ?thesis by (rule invalid)
next
  case (Inr d)
  then show ?thesis
    unfolding CreateCustomer_Inr_iff using valid by blast
qed

subsection \<open>The actions on a rejected form and on an accepted form\<close>

lemma trace_request: "trace (request t) = []" "db (request t) = t"
  by (simp_all add: request_def)

lemma createInvoice_invalid:
  assumes "CreateInvoice (FormData_get fd ''customerId'') (FormData_get fd ''amount'')
             (FormData_get fd ''status'') = Inl iss"
  shows "createInvoice e ps fd w =
           (Returned \<lparr>message = Some ''Missing Fields. Failed to Create Invoice.'',
                      error = Some (fieldErrors iss)\<rparr>, w)"
  using assms by (simp add: createInvoice_def)

lemma updateInvoice_invalid:
  assumes "CreateInvoice (FormData_get fd ''customerId'') (FormData_get fd ''amount'')
             (FormData_get fd ''status'') = Inl iss"
  shows "updateInvoice e i ps fd w =
           (Returned \<lparr>message = Some ''Missing Fields. Failed to Update Invoice.'',
                      error = Some (fieldErrors iss)\<rparr>, w)"
  using assms by (simp add: updateInvoice_def UpdateInvoice_def)

lemma createCustomer_invalid:
  assumes "CreateCustomer (emailRegex e) (FormData_get fd ''name'') (FormData_get fd ''email'')
             (FormData_get fd ''imageUrl'') = Inl iss"
  shows "createCustomer e ps fd w =
           (Returned \<lparr>message = Some ''Missing Fields. Failed to Create Customer.'',
                      error = Some (fieldErrors iss)\<rparr>, w)"
  using assms by (simp add: createCustomer_def)

lemma updateCustomer_invalid:
  assumes "CreateCustomer (emailRegex e) (FormData_get fd ''name'') (FormData_get fd ''email'')
             (FormData_get fd ''imageUrl'') = Inl iss"
  shows "updateCustomer e i ps fd w =
           (Returned \<lparr>message = Some ''Missing Fields. Failed to Update Customer.'',
                      error = Some (fieldErrors iss)\<rparr>, w)"
  using assms by (simp add: updateCustomer_def UpdateCustomer_def)

lemma createInvoice_valid:
  assumes "FormSchema_customerId (FormData_get fd ''customerId'') = Inr c"
    and "FormSchema_amount (FormData_get fd ''amount'') = Inr a"
    and "FormSchema_status (FormData_get fd ''status'') = Inr s"
    and "q = INSERT_INTO_invoices c (js_times a (Finite 100)) s
               (fst (split CHR ''T'' (toISOString (clock e))))"
  shows "createInvoice e ps fd w =
     (if storage_fails e q (db w)
      then (Returned \<lparr>message = Some ''Database Error : Failed To Create Invoice.'',
                       error = None\<rparr>,
            w\<lparr>trace := trace w @ [SqlStatement q]\<rparr>)
      else (Redirected ''/dashboard/invoices'',
            \<lparr>db = run_stmt (new_id e) q (db w),
             trace = trace w @ [SqlStatement q, RevalidatePath ''/dashboard/invoices'',
                                Redirect ''/dashboard/invoices'']\<rparr>))"
  using CreateInvoice_valid [OF assms(1-3)] assms(4)
  by (simp add: createInvoice_def sql_def revalidatePath_def redirect_def Let_def)

lemma updateInvoice_valid:
  assumes "FormSchema_customerId (FormData_get fd ''customerId'') = Inr c"
    and "FormSchema_amount (FormData_get fd ''amount'') = Inr a"
    and "FormSchema_status (FormData_get fd ''status'') = Inr s"
    and "q = UPDATE_invoices c (js_times a (Finite 100)) s i"
  shows "updateInvoice e i ps fd w =
     (if storage_fails e q (db w)
      then (Returned \<lparr>message = Some ''Database Error: Failed to Update Invoice.'',
                       error = None\<rparr>,
            w\<lparr>trace := trace w @ [SqlStatement q]\<rparr>)
      else (Redirected ''/dashboard/invoices'',
            \<lparr>db = run_stmt (new_id e) q (db w),
             trace = trace w @ [SqlStatement q, RevalidatePath ''/dashboard/invoices'',
                                Redirect ''/dashboard/invoices'']\<rparr>))"
  using CreateInvoice_valid [OF assms(1-3)] assms(4)
  by (simp add: updateInvoice_def UpdateInvoice_def sql_def revalidatePath_def redirect_def Let_def)

lemma createCustomer_valid:
  assumes "CustomerFormSchema_name (FormData_get fd ''name'') = Inr n"
    and "CustomerFormSchema_email (emailRegex e) (FormData_get fd ''email'') = Inr m"
    and "CustomerFormSchema_imageUrl (FormData_get fd ''imageUrl'') = Inr u"
    and "q = INSERT_INTO_customers n m u"
  shows "createCustomer e ps fd w =
     (if storage_fails e q (db w)
      then (Returned \<lparr>message = Some ''Database Error : Failed To Create Customer.'',
                       error = None\<rparr>,
            w\<lparr>trace := trace w @ [SqlStatement q]\<rparr>)
      else (Redirected ''/dashboard/customers'',
            \<lparr>db = run_stmt (new_id e) q (db w),
             trace = trace w @ [SqlStatement q, RevalidatePath ''/dashboard/customers'',
                                Redirect ''/dashboard/customers'']\<rparr>))"
  using CreateCustomer_valid [OF assms(1-3)] assms(4)
  by (simp add: createCustomer_def sql_def revalidatePath_def redirect_def Let_def)

lemma updateCustomer_valid:
  assumes "CustomerFormSchema_name (FormData_get fd ''name'') = Inr n"
    and "CustomerFormSchema_email (emailRegex e) (FormData_get fd ''email'') = Inr m"
    and "CustomerFormSchema_imageUrl (FormData_get fd ''imageUrl'') = Inr u"
    and "q = UPDATE_customers n m u i"
  shows "updateCustomer e i ps fd w =
     (if storage_fails e q (db w)
      then (Returned \<lparr>message = Some ''Database Error: Failed to Update Customer.'',
                       error = None\<rparr>,
            w\<lparr>trace := trace w @ [SqlStatement q]\<rparr>)
      else (Redirected ''/dashboard/customers'',
            \<lparr>db = run_stmt (new_id e) q (db w),
             trace = trace w @ [SqlStatement q, RevalidatePath ''/dashboard/customers'',
                                Redirect ''/dashboard/customers'']\<rparr>))"
  using CreateCustomer_valid [OF assms(1-3)] assms(4)
  by (simp add: updateCustomer_def UpdateCustomer_def sql_def revalidatePath_def redirect_def Let_def)

lemma deleteInvoice_eq:
  "deleteInvoice e i w =
     (if storage_fails e (DELETE_FROM_invoices i) (db w)
      then (Returned \<lparr>message = Some ''Database Error: Failed to Delete Invoice.'',
                       error = None\<rparr>,
            w\<lparr>trace := trace w @ [SqlStatement (DELETE_FROM_invoices i)]\<rparr>)
      else (Returned \<lparr>message = Some ''Deleted Invoice.'', error = None\<rparr>,
            \<lparr>db = run_stmt (new_id e) (DELETE_FROM_invoices i) (db w),
             trace = trace w @ [SqlStatement (DELETE_FROM_invoices i),
                                RevalidatePath ''/dashboard/invoices'']\<rparr>))"
  by (simp add: deleteInvoice_def sql_def revalidatePath_def Let_def)

lemma deleteCustomer_eq:
  "deleteCustomer e i w =
     (if storage_fails e (DELETE_FROM_customers i) (db w)
      then (Returned \<lparr>message = Some ''Database Error: Failed to Delete Customer.'',
                       error = None\<rparr>,
            w\<lparr>trace := trace w @ [SqlStatement (DELETE_FROM_customers i)]\<rparr>)
      else (Returned \<lparr>message = Some ''Deleted Customer.'', error = None\<rparr>,
            \<lparr>db = run_stmt (new_id e) (DELETE_FROM_customers i) (db w),
             trace = trace w @ [SqlStatement (DELETE_FROM_customers i),
                                RevalidatePath ''/dashboard/customers'']\<rparr>))"
  by (simp add: deleteCustomer_def sql_def revalidatePath_def Let_def)

lemma run_stmt_UPDATE_invoices_dates:
  "map inv_date (invoices (run_stmt nid (UPDATE_invoices c a s i) t)) = map inv_date (invoices t)"
  by (simp add: comp_def)

text \<open>A statement that the storage rejects ends the invocation.\<close>

lemma createInvoice_storage_failure:
  assumes "SqlStatement q \<in> set (trace (snd (createInvoice e ps fd (request t))))"
    and "storage_fails e q t"
  shows "createInvoice e ps fd (request t) =
           (Returned \<lparr>message = Some ''Database Error : Failed To Create Invoice.'', error = None\<rparr>,
            \<lparr>db = t, trace = [SqlStatement q]\<rparr>)"
proof (cases fd rule: invoice_form_cases)
  case (invalid iss)
  with assms show ?thesis by (simp add: createInvoice_invalid trace_request)
next
  case (valid c a s)
  from assms show ?thesis
    by (auto simp: createInvoice_valid [OF valid refl] request_def split: if_splits)
qed


lemma createCustomer_storage_failure:
  assumes "SqlStatement q \<in> set (trace (snd (createCustomer e ps fd (request t))))"
    and "storage_fails e q t"
  shows "createCustomer e ps fd (request t) =
           (Returned \<lparr>message = Some ''Database Error : Failed To Create Customer.'', error = None\<rparr>,
            \<lparr>db = t, trace = [SqlStatement q]\<rparr>)"
proof (cases "emailRegex e" fd rule: customer_form_cases)
  case (invalid iss)
  with assms show ?thesis by (simp add: createCustomer_invalid trace_request)
next
  case (valid n m u)
  from assms show ?thesis
    by (auto simp: createCustomer_valid [OF valid refl] request_def split: if_splits)
qed


subsection \<open>The date stamp\<close>

lemma digit_cases:
  "d < (10::nat) \<Longrightarrow>
     d = 0 \<or> d = 1 \<or> d = 2 \<or> d = 3 \<or> d = 4 \<or> d = 5 \<or> d = 6 \<or> d = 7 \<or> d = 8 \<or> d = 9"
  by arith

lemma digit_char_not_T: "d < 10 \<Longrightarrow> digit_char d \<noteq> CHR ''T''"
  by (drule digit_cases) (auto simp: digit_char_def)

lemma digit_char_0: "digit_char 0 = CHR ''0''"
  by (simp add: digit_char_def)

lemma padStart_short:
  "padStart 4 c [x] = [c, c, c, x]" "padStart 4 c [x, y] = [c, c, x, y]"
  "padStart 4 c [x, y, z] = [c, x, y, z]" "padStart 4 c [x, y, z, u] = [x, y, z, u]"
  "padStart 2 c [x] = [c, x]" "padStart 2 c [x, y] = [x, y]"
  by (simp_all add: padStart_def numeral_eq_Suc)

lemma decimal_lt10: "n < 10 \<Longrightarrow> decimal n = [digit_char n]"
  by (subst decimal.simps) simp

lemma decimal_ge10: "10 \<le> n \<Longrightarrow> decimal n = decimal (n div 10) @ [digit_char (n mod 10)]"
  by (subst decimal.simps) simp

lemma decimal_no_T: "CHR ''T'' \<notin> set (decimal n)"
proof (induction n rule: decimal.induct)
  case (1 n)
  show ?case
  proof (cases "n < 10")
    case True
    then show ?thesis
      using digit_char_not_T [of n] by (simp add: decimal_lt10)
  next
    case False
    then have "CHR ''T'' \<notin> set (decimal (n div 10))"
      using "1.IH" by simp
    moreover have "digit_char (n mod 10) \<noteq> CHR ''T''"
      by (rule digit_char_not_T) simp
    ultimately show ?thesis
      using False by (auto simp: decimal_ge10)
  qed
qed

lemma padStart_no_T: "CHR ''T'' \<notin> set (padStart k CHR ''0'' (decimal n))"
  using decimal_no_T [of n] by (auto simp: padStart_def)

lemma split_first_piece:
  "sep \<notin> set p \<Longrightarrow> fst (split sep (p @ sep # rest)) = p"
  by (induction p) (auto simp: split_beta)

lemma decimal_2: "n < 100 \<Longrightarrow> padStart 2 CHR ''0'' (decimal n) =
    [digit_char (n div 10 mod 10), digit_char (n mod 10)]"
proof (cases "n < 10")
  case True
  then show ?thesis
    by (simp add: decimal_lt10 padStart_short digit_char_0)
next
  case False
  assume "n < 100"
  with False have "n div 10 < 10" "10 \<le> n" by simp_all
  then show ?thesis
    by (simp add: decimal_ge10 decimal_lt10 padStart_short)
qed

lemma decimal_4: 
  assumes "n < 10000"
  shows "padStart 4 CHR ''0'' (decimal n) =
    [digit_char (n div 1000 mod 10), digit_char (n div 100 mod 10),
     digit_char (n div 10 mod 10), digit_char (n mod 10)]"
proof -
  consider "n < 10" | "10 \<le> n" "n < 100" | "100 \<le> n" "n < 1000" | "1000 \<le> n"
    by linarith
  then show ?thesis
  proof cases
    case 1
    then show ?thesis
      by (simp add: decimal_lt10 padStart_short digit_char_0)
  next
    case 2
    then have "n div 10 < 10" by simp
    with 2 show ?thesis
      by (simp add: decimal_ge10 decimal_lt10 padStart_short digit_char_0)
  next
    case 3
    then have a: "10 \<le> n" "10 \<le> n div 10" "n div 10 div 10 < 10" by simp_all
    have b: "n div 10 div 10 = n div 100" by (simp add: div_mult2_eq [symmetric])
    from 3 have c: "n div 1000 = 0" by simp
    show ?thesis
      using a(3) by (simp add: decimal_ge10 [OF a(1)] decimal_ge10 [OF a(2)] decimal_lt10
          padStart_short digit_char_0 b c)
  next
    case 4
    with assms have r: "10 \<le> n" "10 \<le> n div 10" "10 \<le> n div 100" "n div 1000 < 10"
      by simp_all
    have d1: "decimal n = decimal (n div 10) @ [digit_char (n mod 10)]"
      by (rule decimal_ge10 [OF r(1)])
    have d2: "decimal (n div 10) = decimal (n div 100) @ [digit_char (n div 10 mod 10)]"
      using decimal_ge10 [OF r(2)] by (simp add: div_mult2_eq [symmetric])
    have d3: "decimal (n div 100) = decimal (n div 1000) @ [digit_char (n div 100 mod 10)]"
      using decimal_ge10 [OF r(3)] by (simp add: div_mult2_eq [symmetric])
    have d4: "decimal (n div 1000) = [digit_char (n div 1000 mod 10)]"
      using r(4) by (simp add: decimal_lt10)
    show ?thesis
      by (simp add: d1 d2 d3 d4 padStart_short)
  qed
qed

lemma date_stamp:
  assumes "four_digit_year t"
  shows "fst (split CHR ''T'' (toISOString t)) =
           YYYY_MM_DD (nat (utc_year t)) (utc_month t) (utc_day t)"
proof -
  let ?d = "padStart 4 CHR ''0'' (decimal (nat (utc_year t))) @ ''-''
              @ padStart 2 CHR ''0'' (decimal (utc_month t)) @ ''-''
              @ padStart 2 CHR ''0'' (decimal (utc_day t))"
  from assms have y: "0 \<le> utc_year t" "utc_year t \<le> 9999" "nat (utc_year t) < 10000"
    and m: "utc_month t < 100" and d: "utc_day t < 100"
    by (auto simp: four_digit_year_def)
  obtain rest where iso: "toISOString t = ?d @ CHR ''T'' # rest"
    using y(1,2) by (simp add: toISOString_def)
  have "CHR ''T'' \<notin> set ?d"
    using padStart_no_T by simp
  then have "fst (split CHR ''T'' (toISOString t)) = ?d"
    unfolding iso by (rule split_first_piece)
  also have "\<dots> = YYYY_MM_DD (nat (utc_year t)) (utc_month t) (utc_day t)"
    by (simp add: decimal_4 [OF y(3)] decimal_2 [OF m] decimal_2 [OF d] YYYY_MM_DD_def)
  finally show ?thesis .
qed

subsection \<open>The rounding to a double\<close>

text \<open>Each step of the bisection halves the range in which the exponent lies.\<close>

lemma log2_search_bounds:
  assumes "2 ^ e \<le> a" and "a < 2 ^ (e + 2 ^ n)"
  shows "2 ^ log2_search a e (map (\<lambda>i. 2 ^ i) (rev [0..<n])) \<le> a
       \<and> a < 2 ^ Suc (log2_search a e (map (\<lambda>i. 2 ^ i) (rev [0..<n])))"
  using assms
proof (induction n arbitrary: e)
  case 0
  then show ?case by simp
next
  case (Suc n)
  show ?case
  proof (cases "2 ^ (e + 2 ^ n) \<le> a")
    case True
    moreover have "a < 2 ^ (e + 2 ^ n + 2 ^ n)"
      using Suc.prems(2) by (simp add: mult_2 add.assoc)
    ultimately show ?thesis
      using Suc.IH [of "e + 2 ^ n"] by simp
  next
    case False
    then have "a < 2 ^ (e + 2 ^ n)" by simp
    with Suc.prems(1) False show ?thesis
      using Suc.IH [of e] by simp
  qed
qed

lemma bisection_steps:
  "[1024, 512, 256, 128, 64, 32, 16, 8, 4, 2, 1::nat] = map (\<lambda>i. 2 ^ i) (rev [0..<11])"
proof -
  have "[0..<11] = [0, 1, 2, 3, 4, 5, 6, 7, 8, 9, 10::nat]"
    by (simp add: upt_rec)
  then show ?thesis
    by simp
qed

lemma log2_search_literal:
  assumes "1 \<le> b" and "b < 2 ^ 2048"
  shows "2 ^ log2_search b 0 [1024, 512, 256, 128, 64, 32, 16, 8, 4, 2, 1] \<le> b"
    and "b < 2 * 2 ^ log2_search b 0 [1024, 512, 256, 128, 64, 32, 16, 8, 4, 2, 1]"
proof -
  have "2 ^ 0 \<le> b" "b < 2 ^ (0 + 2 ^ 11)"
    using assms by simp_all
  from log2_search_bounds [OF this]
  show "2 ^ log2_search b 0 [1024, 512, 256, 128, 64, 32, 16, 8, 4, 2, 1] \<le> b"
    and "b < 2 * 2 ^ log2_search b 0 [1024, 512, 256, 128, 64, 32, 16, 8, 4, 2, 1]"
    unfolding bisection_steps by simp_all
qed


text \<open>The exponent found by bisection is the one of the binade of \<open>a\<close>:
  \<open>2 ^ e \<le> a < 2 ^ (e + 1)\<close>.\<close>

lemma log2_floor_bounds:
  assumes "0 < a" and "1 / 2 ^ 2048 < a" and "a < 2 ^ 2048"
  shows "pow2 (log2_floor a) \<le> a \<and> a < 2 * pow2 (log2_floor a)"
proof (cases "1 \<le> a")
  case True
  then show ?thesis
    using log2_search_literal [OF True assms(3)] by (simp add: log2_floor_def pow2_def)
next
  case False
  define b where "b = 1 / a"
  define k where "k = log2_search b 0 [1024, 512, 256, 128, 64, 32, 16, 8, 4, 2, 1]"
  have ab: "a * b = 1" and b0: "0 < b"
    using assms(1) by (simp_all add: b_def)
  have b1: "1 \<le> b"
    using assms(1) False by (simp add: b_def)
  have "1 < a * 2 ^ 2048"
    using assms(2) by (simp add: pos_divide_less_eq)
  then have b2: "b < 2 ^ 2048"
    using assms(1) by (simp add: b_def pos_divide_less_eq mult.commute)
  have k1: "2 ^ k \<le> b" and k2: "b < 2 * 2 ^ k"
    unfolding k_def by (rule log2_search_literal [OF b1 b2])+
  have "a * 2 ^ k \<le> a * b"
    using k1 assms(1) by simp
  then have lo: "a * 2 ^ k \<le> 1"
    by (simp add: ab)
  have "a * b < a * (2 * 2 ^ k)"
    using k2 assms(1) by simp
  then have hi: "1 < a * (2 * 2 ^ k)"
    by (simp add: ab)
  have e: "log2_floor a = (if b = 2 ^ k then - int k else - int k - 1)"
    using False by (simp add: log2_floor_def Let_def b_def k_def)
  show ?thesis
  proof (cases "b = 2 ^ k")
    case True
    with ab have eq: "a * 2 ^ k = 1"
      by simp
    then have a: "a = 1 / 2 ^ k"
      by (simp add: eq_divide_eq)
    have p: "pow2 (- int k) = 1 / 2 ^ k"
      by (cases "k = 0") (simp_all add: pow2_def)
    have "a < 2 * a"
      using assms(1) by simp
    then show ?thesis
      unfolding e using True by (simp add: p a [symmetric])
  next
    case neq: False
    have n: "nat (1 + int k) = Suc k"
      by simp
    have p: "pow2 (- int k - 1) = 1 / (2 * 2 ^ k)"
      by (simp add: pow2_def n)
    have "a * 2 ^ k \<noteq> a * b"
      using neq assms(1) by simp
    with lo have lo': "a * 2 ^ k < 1"
      by (simp add: ab)
    have "1 / (2 * 2 ^ k) \<le> a"
      using hi by (simp add: pos_divide_le_eq mult.commute)
    moreover have "a < 2 * (1 / (2 * 2 ^ k))"
      using lo' by (simp add: pos_less_divide_eq)
    ultimately show ?thesis
      unfolding e using neq by (simp add: p)
  qed
qed

subsection \<open>The example data\<close>

lemma floor_rat_numeral: "\<lfloor>numeral a / numeral b :: rat\<rfloor> = numeral a div numeral b"
  using floor_divide_of_int_eq [of "numeral a" "numeral b", where ?'a = rat] by simp

lemmas double_defs = to_double_def round_positive_def log2_floor_def pow2_def roundTiesToEven_def
  Let_def floor_rat_numeral

lemmas num_defs = StringToNumber_def trim_def is_ws_def nondecimal_literal_def unsigned_decimal_def
  decimal_literal_def exponent_part_def scale10_def is_digit_def digit_in_def digit_table_def
  all_digits_def double_defs

lemmas schema_defs = FormSchema_customerId_def FormSchema_amount_def FormSchema_status_def
  CustomerFormSchema_name_def CustomerFormSchema_email_def CustomerFormSchema_imageUrl_def
  z_string_def z_string_email_def z_coerce_number_gt_def z_enum_def FormData_get_def failure_def
  default_invalid_type_def invalid_enum_value_def

lemma example_date_stamp:
  "fst (split CHR ''T'' (toISOString (clock example_env))) = ''2024-03-07''"
  by (simp add: example_env_def example_clock_def toISOString_def padStart_def decimal.simps
      digit_char_def)

lemma invoice_form_get:
  "FormData_get (invoice_form c a s) ''customerId'' = Some (StringEntry c)"
  "FormData_get (invoice_form c a s) ''amount'' = Some (StringEntry a)"
  "FormData_get (invoice_form c a s) ''status'' = Some (StringEntry s)"
  "FormData_get (invoice_form c a s) ''name'' = None"
  "FormData_get (invoice_form c a s) ''email'' = None"
  "FormData_get (invoice_form c a s) ''imageUrl'' = None"
  by (simp_all add: invoice_form_def FormData_get_def)

lemma customer_form_get:
  "FormData_get (customer_form n m u) ''name'' = Some (StringEntry n)"
  "FormData_get (customer_form n m u) ''email'' = Some (StringEntry m)"
  "FormData_get (customer_form n m u) ''imageUrl'' = Some (StringEntry u)"
  by (simp_all add: customer_form_def FormData_get_def)

lemma FormSchema_customerId_string: "FormSchema_customerId (Some (StringEntry c)) = Inr c"
  by (simp add: FormSchema_customerId_def z_string_def)

lemma CustomerFormSchema_name_string: "CustomerFormSchema_name (Some (StringEntry c)) = Inr c"
  by (simp add: CustomerFormSchema_name_def z_string_def)

lemma CustomerFormSchema_imageUrl_string: "CustomerFormSchema_imageUrl (Some (StringEntry c)) = Inr c"
  by (simp add: CustomerFormSchema_imageUrl_def z_string_def)

lemma CustomerFormSchema_email_string:
  "rx m \<Longrightarrow> CustomerFormSchema_email rx (Some (StringEntry m)) = Inr m"
  by (simp add: CustomerFormSchema_email_def z_string_email_def z_string_def)

lemma FormSchema_status_paid: "FormSchema_status (Some (StringEntry ''paid'')) = Inr ''paid''"
  by (simp add: FormSchema_status_def z_enum_def)

lemma FormSchema_amount_examples:
  "FormSchema_amount (Some (StringEntry ''45.00'')) = Inr (Finite 45)"
  "FormSchema_amount (Some (StringEntry ''10.50'')) = Inr (Finite (21 / 2))"
  "FormSchema_amount (Some (StringEntry ''0.125'')) = Inr (Finite (1 / 8))"
  "FormSchema_amount (Some (StringEntry ''19.99'')) =
     Inr (Finite (5626684784446013 / 281474976710656))"
  by (simp_all add: FormSchema_amount_def z_coerce_number_gt_def num_defs)

lemma js_times_examples:
  "js_times (Finite 45) (Finite 100) = Finite 4500"
  "js_times (Finite (21 / 2)) (Finite 100) = Finite 1050"
  "js_times (Finite (1 / 8)) (Finite 100) = Finite (25 / 2)"
  "js_times (Finite (5626684784446013 / 281474976710656)) (Finite 100) =
     Finite (8791694975696895 / 4398046511104)"
  by (simp_all add: js_times.simps double_defs)

text \<open>Amounts at the ends of the range of the doubles: a literal below the least
  positive double reads as 0 and fails the schema; a large amount passes and its
  product with 100 overflows.\<close>

lemma Number_underflow:
  "Number (Some (StringEntry ''1e-324'')) = Finite 0"
  "FormSchema_amount (Some (StringEntry ''1e-324'')) =
     Inl [''Please enter an amount greater than $0.'']"
  by (simp_all add: FormSchema_amount_def z_coerce_number_gt_def num_defs)

lemma Number_overflow:
  "js_times (Number (Some (StringEntry ''1e308''))) (Finite 100) = PosInfinity"
  by (simp add: num_defs js_times.simps)

lemma Number_rounding:
  "Number (Some (StringEntry ''9007199254740993'')) = Finite 9007199254740992"
  "js_times (Number (Some (StringEntry ''0.07''))) (Finite 100) =
     Finite (7881299347898369 / 1125899906842624)"
  by (simp_all add: num_defs js_times.simps)

lemma Number_no_break_space: "Number (Some (StringEntry [CHR 0xA0, CHR ''5''])) = Finite 5"
  by (simp add: num_defs)

lemma example_env_simps:
  "storage_fails example_env q t = False" "storage_fails failing_env q t = True"
  "new_id example_env t = ''new-id''" "new_id failing_env t = ''new-id''"
  "clock failing_env = clock example_env"
  "emailRegex example_env s = (CHR ''@'' \<in> set s)"
  "emailRegex failing_env s = (CHR ''@'' \<in> set s)"
  by (simp_all add: example_env_def failing_env_def)

lemma example_createInvoice:
  "createInvoice example_env initialState (invoice_form c ''45.00'' ''paid'') (request example_db) =
     (Redirected ''/dashboard/invoices'',
      \<lparr>db = example_db\<lparr>invoices := invoices example_db @
              [\<lparr>inv_id = ''new-id'', inv_customer_id = c, inv_amount = Finite 4500,
                inv_status = ''paid'', inv_date = ''2024-03-07''\<rparr>]\<rparr>,
       trace = [SqlStatement (INSERT_INTO_invoices c (Finite 4500) ''paid'' ''2024-03-07''),
                RevalidatePath ''/dashboard/invoices'', Redirect ''/dashboard/invoices'']\<rparr>)"
  by (simp add: createInvoice_valid [OF _ _ _ refl] invoice_form_get FormSchema_customerId_string
      FormSchema_amount_examples js_times_examples FormSchema_status_paid example_env_simps example_date_stamp
      request_def)


lemma example_updateInvoice:
  "updateInvoice example_env ''inv-1'' initialState (invoice_form ''c1'' ''10.50'' ''paid'')
     (request example_db) =
     (Redirected ''/dashboard/invoices'',
      \<lparr>db = example_db\<lparr>invoices :=
              [\<lparr>inv_id = ''inv-1'', inv_customer_id = ''c1'', inv_amount = Finite 1050,
                inv_status = ''paid'', inv_date = ''2023-12-31''\<rparr>,
               \<lparr>inv_id = ''inv-2'', inv_customer_id = ''c2'', inv_amount = Finite 999,
                inv_status = ''paid'', inv_date = ''2024-01-15''\<rparr>]\<rparr>,
       trace = [SqlStatement (UPDATE_invoices ''c1'' (Finite 1050) ''paid'' ''inv-1''),
                RevalidatePath ''/dashboard/invoices'', Redirect ''/dashboard/invoices'']\<rparr>)"
  by (simp add: updateInvoice_valid [OF _ _ _ refl] invoice_form_get FormSchema_customerId_string
      FormSchema_amount_examples js_times_examples FormSchema_status_paid example_env_simps
      request_def example_db_def)


lemma example_updateCustomer:
  "updateCustomer example_env ''c2'' initialState
     (customer_form ''Robert'' ''rob@example.com'' ''/img/rob.png'') (request example_db) =
     (Redirected ''/dashboard/customers'',
      \<lparr>db = example_db\<lparr>customers :=
              [\<lparr>cust_id = ''c1'', cust_name = ''Ada'', cust_email = ''ada@example.com'',
                cust_image_url = ''/img/ada.png''\<rparr>,
               \<lparr>cust_id = ''c2'', cust_name = ''Robert'', cust_email = ''rob@example.com'',
                cust_image_url = ''/img/rob.png''\<rparr>]\<rparr>,
       trace = [SqlStatement (UPDATE_customers ''Robert'' ''rob@example.com'' ''/img/rob.png'' ''c2''),
                RevalidatePath ''/dashboard/customers'', Redirect ''/dashboard/customers'']\<rparr>)"
  by (simp add: updateCustomer_valid [OF _ _ _ refl] customer_form_get CustomerFormSchema_name_string
      CustomerFormSchema_imageUrl_string CustomerFormSchema_email_string example_env_simps
      request_def example_db_def)

section \<open>The properties\<close>

text \<open>
  C1. When a form fails validation, each of \<open>createInvoice\<close>, \<open>updateInvoice\<close>,
  \<open>createCustomer\<close> and \<open>updateCustomer\<close> returns a state whose error object has, for
  every field, exactly the messages with which that field fails its schema (all
  failing fields at once, and no entry for a field that passes), together with the
  message "Missing Fields. Failed to Create/Update Invoice/Customer."; the world is
  returned as it was: no statement is sent, no view is invalidated and there is no
  redirect.
\<close>

theorem validation_failure_reports_every_field:
  "(invoice_field_messages fd f \<noteq> None \<longrightarrow>
      (\<exists>fe. createInvoice e ps fd w =
               (Returned \<lparr>message = Some ''Missing Fields. Failed to Create Invoice.'',
                          error = Some fe\<rparr>, w)
            \<and> map_of fe = invoice_field_messages fd)
    \<and> (\<exists>fe. updateInvoice e i ps fd w =
               (Returned \<lparr>message = Some ''Missing Fields. Failed to Update Invoice.'',
                          error = Some fe\<rparr>, w)
            \<and> map_of fe = invoice_field_messages fd))
   \<and> (customer_field_messages (emailRegex e) fd g \<noteq> None \<longrightarrow>
      (\<exists>fe. createCustomer e ps fd w =
               (Returned \<lparr>message = Some ''Missing Fields. Failed to Create Customer.'',
                          error = Some fe\<rparr>, w)
            \<and> map_of fe = customer_field_messages (emailRegex e) fd)
    \<and> (\<exists>fe. updateCustomer e i ps fd w =
               (Returned \<lparr>message = Some ''Missing Fields. Failed to Update Customer.'',
                          error = Some fe\<rparr>, w)
            \<and> map_of fe = customer_field_messages (emailRegex e) fd))"
proof (intro conjI impI)
  assume "invoice_field_messages fd f \<noteq> None"
  then obtain iss where iss:
    "CreateInvoice (FormData_get fd ''customerId'') (FormData_get fd ''amount'')
       (FormData_get fd ''status'') = Inl iss"
    using invoice_invalid by blast
  show "\<exists>fe. createInvoice e ps fd w =
               (Returned \<lparr>message = Some ''Missing Fields. Failed to Create Invoice.'',
                          error = Some fe\<rparr>, w)
            \<and> map_of fe = invoice_field_messages fd"
    using createInvoice_invalid [OF iss] invoice_fieldErrors [OF iss] by blast
  show "\<exists>fe. updateInvoice e i ps fd w =
               (Returned \<lparr>message = Some ''Missing Fields. Failed to Update Invoice.'',
                          error = Some fe\<rparr>, w)
            \<and> map_of fe = invoice_field_messages fd"
    using updateInvoice_invalid [OF iss] invoice_fieldErrors [OF iss] by blast
next
  assume "customer_field_messages (emailRegex e) fd g \<noteq> None"
  then obtain iss where iss:
    "CreateCustomer (emailRegex e) (FormData_get fd ''name'') (FormData_get fd ''email'')
       (FormData_get fd ''imageUrl'') = Inl iss"
    using customer_invalid by blast
  show "\<exists>fe. createCustomer e ps fd w =
               (Returned \<lparr>message = Some ''Missing Fields. Failed to Create Customer.'',
                          error = Some fe\<rparr>, w)
            \<and> map_of fe = customer_field_messages (emailRegex e) fd"
    using createCustomer_invalid [OF iss] customer_fieldErrors [OF iss] by blast
  show "\<exists>fe. updateCustomer e i ps fd w =
               (Returned \<lparr>message = Some ''Missing Fields. Failed to Update Customer.'',
                          error = Some fe\<rparr>, w)
            \<and> map_of fe = customer_field_messages (emailRegex e) fd"
    using updateCustomer_invalid [OF iss] customer_fieldErrors [OF iss] by blast
qed

theorem validation_failure_reports_every_field_witness:
  "\<exists>fe ce.
     createInvoice example_env initialState [(''amount'', StringEntry ''0'')] (request example_db) =
       (Returned \<lparr>message = Some ''Missing Fields. Failed to Create Invoice.'', error = Some fe\<rparr>,
        request example_db)
     \<and> map_of fe ''customerId'' = Some [''Please Select a Customer.'']
     \<and> map_of fe ''amount'' = Some [''Please enter an amount greater than $0.'']
     \<and> map_of fe ''status'' = Some [''Please select an invoice status.'']
     \<and> updateCustomer example_env ''c1'' initialState [(''amount'', StringEntry ''0'')]
           (request example_db) =
       (Returned \<lparr>message = Some ''Missing Fields. Failed to Update Customer.'', error = Some ce\<rparr>,
        request example_db)
     \<and> map_of ce ''name'' = Some [''Please enter a name.'']
     \<and> map_of ce ''email'' = Some [''Expected string, received null'']
     \<and> map_of ce ''imageUrl'' = Some [''Please upload valid image.'']"
proof -
  let ?fd = "[(''amount'', StringEntry ''0'')]"
  have a: "invoice_field_messages ?fd ''customerId'' = Some [''Please Select a Customer.'']"
    and b: "invoice_field_messages ?fd ''amount'' = Some [''Please enter an amount greater than $0.'']"
    and c: "invoice_field_messages ?fd ''status'' = Some [''Please select an invoice status.'']"
    by (simp_all add: invoice_field_messages_def schema_defs num_defs)
  have d: "customer_field_messages (emailRegex example_env) ?fd ''name'' = Some [''Please enter a name.'']"
    and e: "customer_field_messages (emailRegex example_env) ?fd ''email'' = Some [''Expected string, received null'']"
    and f: "customer_field_messages (emailRegex example_env) ?fd ''imageUrl'' = Some [''Please upload valid image.'']"
    by (simp_all add: customer_field_messages_def schema_defs)
  show ?thesis
    using validation_failure_reports_every_field
      [of ?fd "''customerId''" example_env initialState "request example_db" "''c1''" "''name''"]
    by (auto simp: a b c d e f)
qed

text \<open>
  C2. The amount that \<open>createInvoice\<close> and \<open>updateInvoice\<close> send to the storage is the
  validated amount multiplied by 100 as a double, and it is not rounded to an integer.
  On the amount "19.99" the coerced number is the double nearest to 19.99, its product
  with 100 is the double 1998.9999999999998 (here as the fraction it denotes), and that
  value, which is no integer and is not 1999, is what both actions send. On the amount
  "45.00" they send 4500.
\<close>

theorem amount_in_cents_is_not_rounded:
  "FormSchema_amount (FormData_get (invoice_form ''c1'' ''19.99'' ''paid'') ''amount'') =
     Inr (Finite (5626684784446013 / 281474976710656))
   \<and> sql_statements (trace (snd (createInvoice example_env initialState
        (invoice_form ''c1'' ''19.99'' ''paid'') (request example_db)))) =
     [INSERT_INTO_invoices ''c1'' (Finite (8791694975696895 / 4398046511104)) ''paid''
        ''2024-03-07'']
   \<and> map inv_amount (invoices (db (snd (createInvoice example_env initialState
        (invoice_form ''c1'' ''19.99'' ''paid'') (request example_db))))) =
     [Finite 2000, Finite 999, Finite (8791694975696895 / 4398046511104)]
   \<and> sql_statements (trace (snd (updateInvoice example_env ''inv-1'' initialState
        (invoice_form ''c1'' ''19.99'' ''paid'') (request example_db)))) =
     [UPDATE_invoices ''c1'' (Finite (8791694975696895 / 4398046511104)) ''paid'' ''inv-1'']
   \<and> \<not> js_isInteger (Finite (8791694975696895 / 4398046511104))
   \<and> Finite (8791694975696895 / 4398046511104) \<noteq> Finite 1999
   \<and> sql_statements (trace (snd (createInvoice example_env initialState
        (invoice_form ''c1'' ''45.00'' ''paid'') (request example_db)))) =
     [INSERT_INTO_invoices ''c1'' (Finite 4500) ''paid'' ''2024-03-07'']
   \<and> js_isInteger (Finite 4500)"
proof -
  let ?fd = "invoice_form ''c1'' ''19.99'' ''paid''"
  let ?cents = "Finite (8791694975696895 / 4398046511104)"
  have v: "FormSchema_customerId (FormData_get ?fd ''customerId'') = Inr ''c1''"
    "FormSchema_amount (FormData_get ?fd ''amount'') =
       Inr (Finite (5626684784446013 / 281474976710656))"
    "FormSchema_status (FormData_get ?fd ''status'') = Inr ''paid''"
    by (simp_all add: invoice_form_get FormSchema_customerId_string FormSchema_amount_examples
        FormSchema_status_paid)
  have create: "createInvoice example_env initialState ?fd (request example_db) =
        (Redirected ''/dashboard/invoices'',
         \<lparr>db = example_db\<lparr>invoices := invoices example_db @
                 [\<lparr>inv_id = ''new-id'', inv_customer_id = ''c1'', inv_amount = ?cents,
                   inv_status = ''paid'', inv_date = ''2024-03-07''\<rparr>]\<rparr>,
          trace = [SqlStatement (INSERT_INTO_invoices ''c1'' ?cents ''paid'' ''2024-03-07''),
                   RevalidatePath ''/dashboard/invoices'', Redirect ''/dashboard/invoices'']\<rparr>)"
    by (simp add: createInvoice_valid [OF v refl] js_times_examples example_env_simps
        example_date_stamp request_def)
  have update: "sql_statements (trace (snd (updateInvoice example_env ''inv-1'' initialState
        ?fd (request example_db)))) = [UPDATE_invoices ''c1'' ?cents ''paid'' ''inv-1'']"
    by (simp add: updateInvoice_valid [OF v refl] js_times_examples example_env_simps
        request_def)
  have floor: "\<lfloor>8791694975696895 / 4398046511104 :: rat\<rfloor> = 1998"
    by (rule floor_unique) simp_all
  show ?thesis
    unfolding v(2) create update example_createInvoice
    by (simp add: floor example_db_def)
qed

text \<open>
  C3. On a form that passes validation, and with a clock that reads a year of at most
  four digits, \<open>createInvoice\<close> sends exactly one statement, the insert whose date is
  the UTC date of the clock in the format YYYY-MM-DD. When the storage accepts it, the
  new row carries that date, and the invocation ends with the invalidation of the
  invoices list followed by the redirect to it: these are the last two effects of the
  trace, and the invocation ends in the redirect instead of returning a state.
\<close>

theorem createInvoice_stamps_date_revalidates_redirects:
  assumes "FormSchema_customerId (FormData_get fd ''customerId'') = Inr c"
    and "FormSchema_amount (FormData_get fd ''amount'') = Inr a"
    and "FormSchema_status (FormData_get fd ''status'') = Inr s"
    and "four_digit_year (clock e)"
    and "today = YYYY_MM_DD (nat (utc_year (clock e))) (utc_month (clock e)) (utc_day (clock e))"
    and "q = INSERT_INTO_invoices c (js_times a (Finite 100)) s today"
  shows "sql_statements (trace (snd (createInvoice e ps fd (request t)))) = [q]
    \<and> (\<not> storage_fails e q t \<longrightarrow>
         createInvoice e ps fd (request t) =
           (Redirected ''/dashboard/invoices'',
            \<lparr>db = t\<lparr>invoices := invoices t @
                    [\<lparr>inv_id = new_id e t, inv_customer_id = c,
                      inv_amount = js_times a (Finite 100), inv_status = s,
                      inv_date = today\<rparr>]\<rparr>,
             trace = [SqlStatement q, RevalidatePath ''/dashboard/invoices'',
                      Redirect ''/dashboard/invoices'']\<rparr>))"
proof -
  have q: "q = INSERT_INTO_invoices c (js_times a (Finite 100)) s
                 (fst (split CHR ''T'' (toISOString (clock e))))"
    using assms(5,6) date_stamp [OF assms(4)] by simp
  show ?thesis
    unfolding createInvoice_valid [OF assms(1-3) q]
    by (simp add: request_def assms(6))
qed

theorem createInvoice_stamps_date_revalidates_redirects_witness:
  "four_digit_year (clock example_env)
   \<and> YYYY_MM_DD (nat (utc_year (clock example_env))) (utc_month (clock example_env))
        (utc_day (clock example_env)) = ''2024-03-07''
   \<and> createInvoice example_env initialState (invoice_form ''c1'' ''45.00'' ''paid'')
        (request example_db) =
      (Redirected ''/dashboard/invoices'',
       \<lparr>db = example_db\<lparr>invoices := invoices example_db @
               [\<lparr>inv_id = ''new-id'', inv_customer_id = ''c1'', inv_amount = Finite 4500,
                 inv_status = ''paid'', inv_date = ''2024-03-07''\<rparr>]\<rparr>,
        trace = [SqlStatement (INSERT_INTO_invoices ''c1'' (Finite 4500) ''paid'' ''2024-03-07''),
                 RevalidatePath ''/dashboard/invoices'', Redirect ''/dashboard/invoices'']\<rparr>)"
proof -
  let ?fd = "invoice_form ''c1'' ''45.00'' ''paid''"
  have y: "four_digit_year (clock example_env)"
    by (simp add: four_digit_year_def example_env_def example_clock_def)
  have d: "YYYY_MM_DD (nat (utc_year (clock example_env))) (utc_month (clock example_env))
        (utc_day (clock example_env)) = ''2024-03-07''"
    by (simp add: YYYY_MM_DD_def example_env_def example_clock_def digit_char_def)
  have v: "FormSchema_customerId (FormData_get ?fd ''customerId'') = Inr ''c1''"
    "FormSchema_amount (FormData_get ?fd ''amount'') = Inr (Finite 45)"
    "FormSchema_status (FormData_get ?fd ''status'') = Inr ''paid''"
    by (simp_all add: invoice_form_get FormSchema_customerId_string FormSchema_amount_examples js_times_examples
        FormSchema_status_paid)
  show ?thesis
    using createInvoice_stamps_date_revalidates_redirects
      [OF v y d [symmetric] refl, of initialState example_db]
    by (simp add: y d example_env_simps js_times_examples)
qed

text \<open>
  C4. The customer reference of an invoice form passes validation exactly when it is
  present as a string. When it is absent (or is not a string), the field fails with
  "Please Select a Customer." and neither \<open>createInvoice\<close> nor \<open>updateInvoice\<close> sends a
  statement. When the name of a customer form is absent (or is not a string), the
  field fails with "Please enter a name." and neither \<open>createCustomer\<close> nor
  \<open>updateCustomer\<close> sends a statement.
\<close>

theorem absent_reference_or_name_fails:
  "((\<forall>s. FormData_get fd ''customerId'' \<noteq> Some (StringEntry s)) \<longrightarrow>
      invoice_field_messages fd ''customerId'' = Some [''Please Select a Customer.'']
      \<and> sql_statements (trace (snd (createInvoice e ps fd (request t)))) = []
      \<and> sql_statements (trace (snd (updateInvoice e i ps fd (request t)))) = [])
   \<and> (invoice_field_messages fd ''customerId'' = None
        \<longleftrightarrow> (\<exists>s. FormData_get fd ''customerId'' = Some (StringEntry s)))
   \<and> ((\<forall>s. FormData_get fd ''name'' \<noteq> Some (StringEntry s)) \<longrightarrow>
      customer_field_messages (emailRegex e) fd ''name'' = Some [''Please enter a name.'']
      \<and> sql_statements (trace (snd (createCustomer e ps fd (request t)))) = []
      \<and> sql_statements (trace (snd (updateCustomer e i ps fd (request t)))) = [])"
proof -
  have c: "invoice_field_messages fd ''customerId'' =
      (case FormData_get fd ''customerId'' of
         Some (StringEntry s) \<Rightarrow> None
       | _ \<Rightarrow> Some [''Please Select a Customer.''])"
    by (simp add: invoice_field_messages_def FormSchema_customerId_def z_string_def failure_def
        split: option.splits FormDataEntryValue.splits)
  have n: "customer_field_messages (emailRegex e) fd ''name'' =
      (case FormData_get fd ''name'' of
         Some (StringEntry s) \<Rightarrow> None
       | _ \<Rightarrow> Some [''Please enter a name.''])"
    by (simp add: customer_field_messages_def CustomerFormSchema_name_def z_string_def failure_def
        split: option.splits FormDataEntryValue.splits)
  have ci: "sql_statements (trace (snd (createInvoice e ps fd (request t)))) = []"
    and ui: "sql_statements (trace (snd (updateInvoice e i ps fd (request t)))) = []"
    if "invoice_field_messages fd ''customerId'' \<noteq> None"
  proof -
    from invoice_invalid [OF that] obtain iss where
      "CreateInvoice (FormData_get fd ''customerId'') (FormData_get fd ''amount'')
         (FormData_get fd ''status'') = Inl iss" ..
    then show "sql_statements (trace (snd (createInvoice e ps fd (request t)))) = []"
      and "sql_statements (trace (snd (updateInvoice e i ps fd (request t)))) = []"
      by (simp_all add: createInvoice_invalid updateInvoice_invalid trace_request)
  qed
  have cc: "sql_statements (trace (snd (createCustomer e ps fd (request t)))) = []"
    and uc: "sql_statements (trace (snd (updateCustomer e i ps fd (request t)))) = []"
    if "customer_field_messages (emailRegex e) fd ''name'' \<noteq> None"
  proof -
    from customer_invalid [OF that] obtain iss where
      "CreateCustomer (emailRegex e) (FormData_get fd ''name'') (FormData_get fd ''email'')
         (FormData_get fd ''imageUrl'') = Inl iss" ..
    then show "sql_statements (trace (snd (createCustomer e ps fd (request t)))) = []"
      and "sql_statements (trace (snd (updateCustomer e i ps fd (request t)))) = []"
      by (simp_all add: createCustomer_invalid updateCustomer_invalid trace_request)
  qed
  have c1: "invoice_field_messages fd ''customerId'' = Some [''Please Select a Customer.'']"
    if "\<forall>s. FormData_get fd ''customerId'' \<noteq> Some (StringEntry s)"
    using that unfolding c by (auto split: option.splits FormDataEntryValue.splits)
  have n1: "customer_field_messages (emailRegex e) fd ''name'' = Some [''Please enter a name.'']"
    if "\<forall>s. FormData_get fd ''name'' \<noteq> Some (StringEntry s)"
    using that unfolding n by (auto split: option.splits FormDataEntryValue.splits)
  have c2: "invoice_field_messages fd ''customerId'' = None
        \<longleftrightarrow> (\<exists>s. FormData_get fd ''customerId'' = Some (StringEntry s))"
    unfolding c by (auto split: option.splits FormDataEntryValue.splits)
  show ?thesis
  proof (intro conjI impI)
    assume a: "\<forall>s. FormData_get fd ''customerId'' \<noteq> Some (StringEntry s)"
    show "invoice_field_messages fd ''customerId'' = Some [''Please Select a Customer.'']"
      by (rule c1 [OF a])
    show "sql_statements (trace (snd (createInvoice e ps fd (request t)))) = []"
      by (rule ci) (simp add: c1 [OF a])
    show "sql_statements (trace (snd (updateInvoice e i ps fd (request t)))) = []"
      by (rule ui) (simp add: c1 [OF a])
  next
    assume a: "\<forall>s. FormData_get fd ''name'' \<noteq> Some (StringEntry s)"
    show "customer_field_messages (emailRegex e) fd ''name'' = Some [''Please enter a name.'']"
      by (rule n1 [OF a])
    show "sql_statements (trace (snd (createCustomer e ps fd (request t)))) = []"
      by (rule cc) (simp add: n1 [OF a])
    show "sql_statements (trace (snd (updateCustomer e i ps fd (request t)))) = []"
      by (rule uc) (simp add: n1 [OF a])
  next
    show "invoice_field_messages fd ''customerId'' = None
        \<longleftrightarrow> (\<exists>s. FormData_get fd ''customerId'' = Some (StringEntry s))"
      by (rule c2)
  qed
qed

theorem absent_reference_or_name_fails_witness:
  "invoice_field_messages [(''amount'', StringEntry ''45.00''), (''status'', StringEntry ''paid'')]
     ''customerId'' = Some [''Please Select a Customer.'']
   \<and> sql_statements (trace (snd (createInvoice example_env initialState
        [(''amount'', StringEntry ''45.00''), (''status'', StringEntry ''paid'')]
        (request example_db)))) = []
   \<and> sql_statements (trace (snd (updateInvoice example_env ''inv-1'' initialState
        [(''amount'', StringEntry ''45.00''), (''status'', StringEntry ''paid'')]
        (request example_db)))) = []
   \<and> customer_field_messages (emailRegex example_env)
        [(''amount'', StringEntry ''45.00''), (''status'', StringEntry ''paid'')] ''name'' =
      Some [''Please enter a name.'']
   \<and> sql_statements (trace (snd (createCustomer example_env initialState
        [(''amount'', StringEntry ''45.00''), (''status'', StringEntry ''paid'')]
        (request example_db)))) = []
   \<and> sql_statements (trace (snd (updateCustomer example_env ''inv-1'' initialState
        [(''amount'', StringEntry ''45.00''), (''status'', StringEntry ''paid'')]
        (request example_db)))) = []"
proof -
  let ?fd = "[(''amount'', StringEntry ''45.00''), (''status'', StringEntry ''paid'')]"
  have "FormData_get ?fd ''customerId'' = None" "FormData_get ?fd ''name'' = None"
    by (simp_all add: FormData_get_def)
  then show ?thesis
    using absent_reference_or_name_fails
      [of ?fd example_env initialState example_db "''inv-1''"]
    by simp
qed

text \<open>
  C4, counterexample. The empty string passes validation as a \<open>customerId\<close>, and the
  insert with the empty customer reference is sent to the storage.
\<close>

theorem empty_customerId_passes_validation:
  "FormData_get (invoice_form [] ''45.00'' ''paid'') ''customerId'' = Some (StringEntry [])
   \<and> invoice_field_messages (invoice_form [] ''45.00'' ''paid'') ''customerId'' = None
   \<and> sql_statements (trace (snd (createInvoice example_env initialState
        (invoice_form [] ''45.00'' ''paid'') (request example_db)))) =
     [INSERT_INTO_invoices [] (Finite 4500) ''paid'' ''2024-03-07'']"
  by (simp add: example_createInvoice invoice_form_get invoice_field_messages_def failure_def
      FormSchema_customerId_string)

text \<open>
  C5. When the storage rejects the statement of a mutation, the action returns the
  state with its "Database Error" message and nothing more happens: the trace holds
  the rejected statement alone (no view is invalidated, there is no redirect) and the
  tables are as they were. This holds for create and update of both entities on every
  form that passes validation, the statement being the one built from the validated
  values, and for delete of both entities on every identifier.
\<close>

theorem storage_failure_returns_database_error:
  "(FormSchema_customerId (FormData_get fd ''customerId'') = Inr c
      \<and> FormSchema_amount (FormData_get fd ''amount'') = Inr a
      \<and> FormSchema_status (FormData_get fd ''status'') = Inr s \<longrightarrow>
      (storage_fails e
         (INSERT_INTO_invoices c (js_times a (Finite 100)) s
            (fst (split CHR ''T'' (toISOString (clock e))))) t \<longrightarrow>
       createInvoice e ps fd (request t) =
         (Returned \<lparr>message = Some ''Database Error : Failed To Create Invoice.'',
                    error = None\<rparr>,
          \<lparr>db = t,
           trace = [SqlStatement
                      (INSERT_INTO_invoices c (js_times a (Finite 100)) s
                         (fst (split CHR ''T'' (toISOString (clock e)))))]\<rparr>))
      \<and> (storage_fails e (UPDATE_invoices c (js_times a (Finite 100)) s i) t \<longrightarrow>
       updateInvoice e i ps fd (request t) =
         (Returned \<lparr>message = Some ''Database Error: Failed to Update Invoice.'',
                    error = None\<rparr>,
          \<lparr>db = t,
           trace = [SqlStatement (UPDATE_invoices c (js_times a (Finite 100)) s i)]\<rparr>)))
   \<and> (storage_fails e (DELETE_FROM_invoices i) t \<longrightarrow>
      deleteInvoice e i (request t) =
        (Returned \<lparr>message = Some ''Database Error: Failed to Delete Invoice.'', error = None\<rparr>,
         \<lparr>db = t, trace = [SqlStatement (DELETE_FROM_invoices i)]\<rparr>))
   \<and> (CustomerFormSchema_name (FormData_get fd ''name'') = Inr n
      \<and> CustomerFormSchema_email (emailRegex e) (FormData_get fd ''email'') = Inr m
      \<and> CustomerFormSchema_imageUrl (FormData_get fd ''imageUrl'') = Inr u \<longrightarrow>
      (storage_fails e (INSERT_INTO_customers n m u) t \<longrightarrow>
       createCustomer e ps fd (request t) =
         (Returned \<lparr>message = Some ''Database Error : Failed To Create Customer.'',
                    error = None\<rparr>,
          \<lparr>db = t, trace = [SqlStatement (INSERT_INTO_customers n m u)]\<rparr>))
      \<and> (storage_fails e (UPDATE_customers n m u i) t \<longrightarrow>
       updateCustomer e i ps fd (request t) =
         (Returned \<lparr>message = Some ''Database Error: Failed to Update Customer.'',
                    error = None\<rparr>,
          \<lparr>db = t, trace = [SqlStatement (UPDATE_customers n m u i)]\<rparr>)))
   \<and> (storage_fails e (DELETE_FROM_customers i) t \<longrightarrow>
      deleteCustomer e i (request t) =
        (Returned \<lparr>message = Some ''Database Error: Failed to Delete Customer.'', error = None\<rparr>,
         \<lparr>db = t, trace = [SqlStatement (DELETE_FROM_customers i)]\<rparr>))"
proof (intro conjI impI; (elim conjE)?)
  assume v: "FormSchema_customerId (FormData_get fd ''customerId'') = Inr c"
    "FormSchema_amount (FormData_get fd ''amount'') = Inr a"
    "FormSchema_status (FormData_get fd ''status'') = Inr s"
  {
    assume "storage_fails e
         (INSERT_INTO_invoices c (js_times a (Finite 100)) s
            (fst (split CHR ''T'' (toISOString (clock e))))) t"
    then show "createInvoice e ps fd (request t) =
         (Returned \<lparr>message = Some ''Database Error : Failed To Create Invoice.'',
                    error = None\<rparr>,
          \<lparr>db = t,
           trace = [SqlStatement
                      (INSERT_INTO_invoices c (js_times a (Finite 100)) s
                         (fst (split CHR ''T'' (toISOString (clock e)))))]\<rparr>)"
      by (simp add: createInvoice_valid [OF v refl] request_def)
  }
  {
    assume "storage_fails e (UPDATE_invoices c (js_times a (Finite 100)) s i) t"
    then show "updateInvoice e i ps fd (request t) =
         (Returned \<lparr>message = Some ''Database Error: Failed to Update Invoice.'',
                    error = None\<rparr>,
          \<lparr>db = t,
           trace = [SqlStatement (UPDATE_invoices c (js_times a (Finite 100)) s i)]\<rparr>)"
      by (simp add: updateInvoice_valid [OF v refl] request_def)
  }
next
  assume "storage_fails e (DELETE_FROM_invoices i) t"
  then show "deleteInvoice e i (request t) =
        (Returned \<lparr>message = Some ''Database Error: Failed to Delete Invoice.'', error = None\<rparr>,
         \<lparr>db = t, trace = [SqlStatement (DELETE_FROM_invoices i)]\<rparr>)"
    by (simp add: deleteInvoice_eq request_def)
next
  assume v: "CustomerFormSchema_name (FormData_get fd ''name'') = Inr n"
    "CustomerFormSchema_email (emailRegex e) (FormData_get fd ''email'') = Inr m"
    "CustomerFormSchema_imageUrl (FormData_get fd ''imageUrl'') = Inr u"
  {
    assume "storage_fails e (INSERT_INTO_customers n m u) t"
    then show "createCustomer e ps fd (request t) =
         (Returned \<lparr>message = Some ''Database Error : Failed To Create Customer.'',
                    error = None\<rparr>,
          \<lparr>db = t, trace = [SqlStatement (INSERT_INTO_customers n m u)]\<rparr>)"
      by (simp add: createCustomer_valid [OF v refl] request_def)
  }
  {
    assume "storage_fails e (UPDATE_customers n m u i) t"
    then show "updateCustomer e i ps fd (request t) =
         (Returned \<lparr>message = Some ''Database Error: Failed to Update Customer.'',
                    error = None\<rparr>,
          \<lparr>db = t, trace = [SqlStatement (UPDATE_customers n m u i)]\<rparr>)"
      by (simp add: updateCustomer_valid [OF v refl] request_def)
  }
next
  assume "storage_fails e (DELETE_FROM_customers i) t"
  then show "deleteCustomer e i (request t) =
        (Returned \<lparr>message = Some ''Database Error: Failed to Delete Customer.'', error = None\<rparr>,
         \<lparr>db = t, trace = [SqlStatement (DELETE_FROM_customers i)]\<rparr>)"
    by (simp add: deleteCustomer_eq request_def)
qed

theorem storage_failure_returns_database_error_witness:
  "createInvoice failing_env initialState (invoice_form ''c1'' ''45.00'' ''paid'')
     (request example_db) =
     (Returned \<lparr>message = Some ''Database Error : Failed To Create Invoice.'', error = None\<rparr>,
      \<lparr>db = example_db,
       trace = [SqlStatement (INSERT_INTO_invoices ''c1'' (Finite 4500) ''paid'' ''2024-03-07'')]\<rparr>)
   \<and> updateInvoice failing_env ''inv-1'' initialState (invoice_form ''c1'' ''45.00'' ''paid'')
     (request example_db) =
     (Returned \<lparr>message = Some ''Database Error: Failed to Update Invoice.'', error = None\<rparr>,
      \<lparr>db = example_db,
       trace = [SqlStatement (UPDATE_invoices ''c1'' (Finite 4500) ''paid'' ''inv-1'')]\<rparr>)
   \<and> deleteInvoice failing_env ''inv-1'' (request example_db) =
     (Returned \<lparr>message = Some ''Database Error: Failed to Delete Invoice.'', error = None\<rparr>,
      \<lparr>db = example_db, trace = [SqlStatement (DELETE_FROM_invoices ''inv-1'')]\<rparr>)
   \<and> createCustomer failing_env initialState
     (customer_form ''Ada'' ''ada@example.com'' ''/img/ada.png'') (request example_db) =
     (Returned \<lparr>message = Some ''Database Error : Failed To Create Customer.'', error = None\<rparr>,
      \<lparr>db = example_db,
       trace = [SqlStatement
                  (INSERT_INTO_customers ''Ada'' ''ada@example.com'' ''/img/ada.png'')]\<rparr>)
   \<and> updateCustomer failing_env ''inv-1'' initialState
     (customer_form ''Ada'' ''ada@example.com'' ''/img/ada.png'') (request example_db) =
     (Returned \<lparr>message = Some ''Database Error: Failed to Update Customer.'', error = None\<rparr>,
      \<lparr>db = example_db,
       trace = [SqlStatement
                  (UPDATE_customers ''Ada'' ''ada@example.com'' ''/img/ada.png'' ''inv-1'')]\<rparr>)
   \<and> deleteCustomer failing_env ''inv-1'' (request example_db) =
     (Returned \<lparr>message = Some ''Database Error: Failed to Delete Customer.'', error = None\<rparr>,
      \<lparr>db = example_db, trace = [SqlStatement (DELETE_FROM_customers ''inv-1'')]\<rparr>)"
proof -
  let ?fi = "invoice_form ''c1'' ''45.00'' ''paid''"
  let ?fc = "customer_form ''Ada'' ''ada@example.com'' ''/img/ada.png''"
  have vi: "FormSchema_customerId (FormData_get ?fi ''customerId'') = Inr ''c1''"
    "FormSchema_amount (FormData_get ?fi ''amount'') = Inr (Finite 45)"
    "FormSchema_status (FormData_get ?fi ''status'') = Inr ''paid''"
    by (simp_all add: invoice_form_get FormSchema_customerId_string FormSchema_amount_examples
        FormSchema_status_paid)
  have vc: "CustomerFormSchema_name (FormData_get ?fc ''name'') = Inr ''Ada''"
    "CustomerFormSchema_email (emailRegex failing_env) (FormData_get ?fc ''email'') =
       Inr ''ada@example.com''"
    "CustomerFormSchema_imageUrl (FormData_get ?fc ''imageUrl'') = Inr ''/img/ada.png''"
    by (simp_all add: customer_form_get CustomerFormSchema_name_string
        CustomerFormSchema_email_string CustomerFormSchema_imageUrl_string example_env_simps)
  show ?thesis
    using storage_failure_returns_database_error
        [of ?fi "''c1''" "Finite 45" "''paid''" failing_env example_db initialState "''inv-1''"]
      storage_failure_returns_database_error
        [of ?fc _ _ _ failing_env example_db initialState "''inv-1''" "''Ada''"
          "''ada@example.com''" "''/img/ada.png''"]
    by (simp add: vi vc example_env_simps example_date_stamp js_times_examples)
qed




text \<open>
  C7. On a form that passes validation, \<open>updateInvoice\<close> and \<open>updateCustomer\<close> send
  exactly one statement, the update with the validated values and the given
  identifier. When the storage accepts it, every row keeps its identifier, every row
  with that identifier has the validated values in its mutable columns, every other
  row is unchanged, and the other table is unchanged.
\<close>

theorem update_sets_fields_of_matching_rows_only:
  "(FormSchema_customerId (FormData_get fd ''customerId'') = Inr c
      \<and> FormSchema_amount (FormData_get fd ''amount'') = Inr a
      \<and> FormSchema_status (FormData_get fd ''status'') = Inr s \<longrightarrow>
      sql_statements (trace (snd (updateInvoice e i ps fd (request t)))) =
        [UPDATE_invoices c (js_times a (Finite 100)) s i]
      \<and> (\<not> storage_fails e (UPDATE_invoices c (js_times a (Finite 100)) s i) t \<longrightarrow>
           list_all2
             (\<lambda>old new. inv_id new = inv_id old
                \<and> (if inv_id old = i
                    then inv_customer_id new = c \<and> inv_amount new = js_times a (Finite 100)
                         \<and> inv_status new = s
                    else new = old))
             (invoices t) (invoices (db (snd (updateInvoice e i ps fd (request t)))))
           \<and> customers (db (snd (updateInvoice e i ps fd (request t)))) = customers t))
   \<and> (CustomerFormSchema_name (FormData_get fd ''name'') = Inr n
      \<and> CustomerFormSchema_email (emailRegex e) (FormData_get fd ''email'') = Inr m
      \<and> CustomerFormSchema_imageUrl (FormData_get fd ''imageUrl'') = Inr u \<longrightarrow>
      sql_statements (trace (snd (updateCustomer e i ps fd (request t)))) =
        [UPDATE_customers n m u i]
      \<and> (\<not> storage_fails e (UPDATE_customers n m u i) t \<longrightarrow>
           list_all2
             (\<lambda>old new. cust_id new = cust_id old
                \<and> (if cust_id old = i
                    then cust_name new = n \<and> cust_email new = m \<and> cust_image_url new = u
                    else new = old))
             (customers t) (customers (db (snd (updateCustomer e i ps fd (request t)))))
           \<and> invoices (db (snd (updateCustomer e i ps fd (request t)))) = invoices t))"
proof (intro conjI impI; elim conjE)
  assume v: "FormSchema_customerId (FormData_get fd ''customerId'') = Inr c"
    "FormSchema_amount (FormData_get fd ''amount'') = Inr a"
    "FormSchema_status (FormData_get fd ''status'') = Inr s"
  show "sql_statements (trace (snd (updateInvoice e i ps fd (request t)))) =
        [UPDATE_invoices c (js_times a (Finite 100)) s i]"
    by (simp add: updateInvoice_valid [OF v refl] request_def)
  assume ok: "\<not> storage_fails e (UPDATE_invoices c (js_times a (Finite 100)) s i) t"
  show "list_all2
             (\<lambda>old new. inv_id new = inv_id old
                \<and> (if inv_id old = i
                    then inv_customer_id new = c \<and> inv_amount new = js_times a (Finite 100)
                         \<and> inv_status new = s
                    else new = old))
             (invoices t) (invoices (db (snd (updateInvoice e i ps fd (request t)))))"
    using ok by (simp add: updateInvoice_valid [OF v refl] request_def list_all2_map2 list_all2_same)
  show "customers (db (snd (updateInvoice e i ps fd (request t)))) = customers t"
    using ok by (simp add: updateInvoice_valid [OF v refl] request_def)
next
  assume v: "CustomerFormSchema_name (FormData_get fd ''name'') = Inr n"
    "CustomerFormSchema_email (emailRegex e) (FormData_get fd ''email'') = Inr m"
    "CustomerFormSchema_imageUrl (FormData_get fd ''imageUrl'') = Inr u"
  show "sql_statements (trace (snd (updateCustomer e i ps fd (request t)))) =
        [UPDATE_customers n m u i]"
    by (simp add: updateCustomer_valid [OF v refl] request_def)
  assume ok: "\<not> storage_fails e (UPDATE_customers n m u i) t"
  show "list_all2
             (\<lambda>old new. cust_id new = cust_id old
                \<and> (if cust_id old = i
                    then cust_name new = n \<and> cust_email new = m \<and> cust_image_url new = u
                    else new = old))
             (customers t) (customers (db (snd (updateCustomer e i ps fd (request t)))))"
    using ok by (simp add: updateCustomer_valid [OF v refl] request_def list_all2_map2 list_all2_same)
  show "invoices (db (snd (updateCustomer e i ps fd (request t)))) = invoices t"
    using ok by (simp add: updateCustomer_valid [OF v refl] request_def)
qed

theorem update_sets_fields_of_matching_rows_only_witness:
  "sql_statements (trace (snd (updateInvoice example_env ''inv-1'' initialState
      (invoice_form ''c1'' ''10.50'' ''paid'') (request example_db)))) =
     [UPDATE_invoices ''c1'' (Finite 1050) ''paid'' ''inv-1'']
   \<and> invoices (db (snd (updateInvoice example_env ''inv-1'' initialState
      (invoice_form ''c1'' ''10.50'' ''paid'') (request example_db)))) =
     [\<lparr>inv_id = ''inv-1'', inv_customer_id = ''c1'', inv_amount = Finite 1050,
       inv_status = ''paid'', inv_date = ''2023-12-31''\<rparr>,
      \<lparr>inv_id = ''inv-2'', inv_customer_id = ''c2'', inv_amount = Finite 999,
       inv_status = ''paid'', inv_date = ''2024-01-15''\<rparr>]
   \<and> sql_statements (trace (snd (updateCustomer example_env ''c2'' initialState
      (customer_form ''Robert'' ''rob@example.com'' ''/img/rob.png'') (request example_db)))) =
     [UPDATE_customers ''Robert'' ''rob@example.com'' ''/img/rob.png'' ''c2'']
   \<and> map cust_name (customers (db (snd (updateCustomer example_env ''c2'' initialState
      (customer_form ''Robert'' ''rob@example.com'' ''/img/rob.png'') (request example_db))))) =
     [''Ada'', ''Robert'']"
  using update_sets_fields_of_matching_rows_only
      [of "invoice_form ''c1'' ''10.50'' ''paid''" "''c1''" "Finite (21 / 2)" "''paid''"
        example_env "''inv-1''" initialState example_db]
    update_sets_fields_of_matching_rows_only
      [of "customer_form ''Robert'' ''rob@example.com'' ''/img/rob.png''" _ _ _
        example_env "''c2''" initialState example_db "''Robert''" "''rob@example.com''"
        "''/img/rob.png''"]
  by (simp add: example_updateInvoice example_updateCustomer)


text \<open>
  C8. For every identifier, when the storage accepts the delete statement,
  \<open>deleteInvoice\<close> and \<open>deleteCustomer\<close> return the message "Deleted Invoice." or
  "Deleted Customer.", invalidate the list view of the entity and do not redirect.
  The returned state and the trace do not depend on the tables, so an identifier that
  matches no row is answered like one that does; for such an identifier the tables
  are unchanged.
\<close>

theorem delete_reports_success_for_every_identifier:
  "(\<not> storage_fails e (DELETE_FROM_invoices i) t \<longrightarrow>
      deleteInvoice e i (request t) =
        (Returned \<lparr>message = Some ''Deleted Invoice.'', error = None\<rparr>,
         \<lparr>db = t\<lparr>invoices := filter (\<lambda>r. inv_id r \<noteq> i) (invoices t)\<rparr>,
          trace = [SqlStatement (DELETE_FROM_invoices i), RevalidatePath ''/dashboard/invoices'']\<rparr>)
      \<and> (i \<notin> inv_id ` set (invoices t) \<longrightarrow> db (snd (deleteInvoice e i (request t))) = t))
   \<and> (\<not> storage_fails e (DELETE_FROM_customers i) t \<longrightarrow>
      deleteCustomer e i (request t) =
        (Returned \<lparr>message = Some ''Deleted Customer.'', error = None\<rparr>,
         \<lparr>db = t\<lparr>customers := filter (\<lambda>r. cust_id r \<noteq> i) (customers t)\<rparr>,
          trace = [SqlStatement (DELETE_FROM_customers i), RevalidatePath ''/dashboard/customers'']\<rparr>)
      \<and> (i \<notin> cust_id ` set (customers t) \<longrightarrow> db (snd (deleteCustomer e i (request t))) = t))"
proof -
  have "filter (\<lambda>r. inv_id r \<noteq> i) (invoices t) = invoices t" if "i \<notin> inv_id ` set (invoices t)"
    using that by (auto simp: filter_id_conv)
  moreover have "filter (\<lambda>r. cust_id r \<noteq> i) (customers t) = customers t"
    if "i \<notin> cust_id ` set (customers t)"
    using that by (auto simp: filter_id_conv)
  ultimately show ?thesis
    by (simp add: deleteInvoice_eq deleteCustomer_eq request_def)
qed

theorem delete_reports_success_for_every_identifier_witness:
  "deleteInvoice example_env ''inv-404'' (request example_db) =
     (Returned \<lparr>message = Some ''Deleted Invoice.'', error = None\<rparr>,
      \<lparr>db = example_db,
       trace = [SqlStatement (DELETE_FROM_invoices ''inv-404''),
                RevalidatePath ''/dashboard/invoices'']\<rparr>)
   \<and> fst (deleteInvoice example_env ''inv-1'' (request example_db)) =
     Returned \<lparr>message = Some ''Deleted Invoice.'', error = None\<rparr>
   \<and> trace (snd (deleteInvoice example_env ''inv-1'' (request example_db))) =
     [SqlStatement (DELETE_FROM_invoices ''inv-1''), RevalidatePath ''/dashboard/invoices'']
   \<and> map inv_id (invoices (db (snd (deleteInvoice example_env ''inv-1'' (request example_db))))) =
     [''inv-2'']
   \<and> deleteCustomer example_env ''c-404'' (request example_db) =
     (Returned \<lparr>message = Some ''Deleted Customer.'', error = None\<rparr>,
      \<lparr>db = example_db,
       trace = [SqlStatement (DELETE_FROM_customers ''c-404''),
                RevalidatePath ''/dashboard/customers'']\<rparr>)"
  using delete_reports_success_for_every_identifier [of example_env "''inv-404''" example_db]
    delete_reports_success_for_every_identifier [of example_env "''inv-1''" example_db]
    delete_reports_success_for_every_identifier [of example_env "''c-404''" example_db]
  by (simp add: example_env_simps example_db_def)

text \<open>
  C9. \<open>authenticate\<close> returns "Invalid credentials." exactly when the sign-in throws
  an \<open>AuthError\<close> whose type is \<open>CredentialsSignin\<close>; it returns "Something went
  wrong." for an \<open>AuthError\<close> of any other type; and anything thrown that is not an
  \<open>AuthError\<close> is thrown again, unchanged.
\<close>

theorem authenticate_maps_failures:
  "(authenticate signIn ps fd = ReturnedMessage (Some ''Invalid credentials.'')
      \<longleftrightarrow> signIn ''credentials'' fd = Rejected (AuthError ''CredentialsSignin''))
   \<and> (\<forall>ty. signIn ''credentials'' fd = Rejected (AuthError ty) \<and> ty \<noteq> ''CredentialsSignin''
        \<longrightarrow> authenticate signIn ps fd = ReturnedMessage (Some ''Something went wrong.''))
   \<and> (\<forall>x. signIn ''credentials'' fd = Rejected (NotAuthError x)
        \<longrightarrow> authenticate signIn ps fd = Thrown (NotAuthError x))"
  by (auto simp: authenticate_def split: signIn_result.splits thrown.splits)

theorem authenticate_maps_failures_witness:
  "authenticate (\<lambda>p f. Rejected (AuthError ''CredentialsSignin'')) None [] =
     ReturnedMessage (Some ''Invalid credentials.'')
   \<and> authenticate (\<lambda>p f. Rejected (AuthError ''CallbackRouteError'')) None [] =
     ReturnedMessage (Some ''Something went wrong.'')
   \<and> authenticate (\<lambda>p f. Rejected (NotAuthError ''NEXT_REDIRECT'')) None [] =
     Thrown (NotAuthError ''NEXT_REDIRECT'')"
  using authenticate_maps_failures [of "\<lambda>p f. Rejected (AuthError ''CredentialsSignin'')" None "[]"]
    authenticate_maps_failures [of "\<lambda>p f. Rejected (AuthError ''CallbackRouteError'')" None "[]"]
    authenticate_maps_failures [of "\<lambda>p f. Rejected (NotAuthError ''NEXT_REDIRECT'')" None "[]"]
  by simp

text \<open>
  C10. \<open>updateInvoice\<close> never changes the issue date of an invoice: after any
  invocation, on any form and whatever the storage does, the date column of the
  invoices table reads as before. (Its statement carries the customer, the amount, the
  status and the identifier, and no date.)
\<close>

theorem updateInvoice_preserves_dates:
  "map inv_date (invoices (db (snd (updateInvoice e i ps fd w)))) = map inv_date (invoices (db w))"
proof (cases fd rule: invoice_form_cases)
  case (invalid iss)
  then show ?thesis by (simp add: updateInvoice_invalid)
next
  case (valid c a s)
  show ?thesis
    by (simp add: updateInvoice_valid [OF valid refl] comp_def)
qed

theorem updateInvoice_preserves_dates_witness:
  "map inv_date (invoices (db (snd (updateInvoice example_env ''inv-1'' initialState
      (invoice_form ''c1'' ''10.50'' ''paid'') (request example_db))))) =
     [''2023-12-31'', ''2024-01-15'']
   \<and> map inv_amount (invoices (db (snd (updateInvoice example_env ''inv-1'' initialState
      (invoice_form ''c1'' ''10.50'' ''paid'') (request example_db))))) =
     [Finite 1050, Finite 999]"
  using updateInvoice_preserves_dates [of example_env "''inv-1''" initialState
      "invoice_form ''c1'' ''10.50'' ''paid''" "request example_db"]
  unfolding example_updateInvoice by (simp add: request_def example_db_def)

end
